theory Spec2Isabelle
  imports Main "HOL-Library.Char_ord" "HOL-Library.List_Lexorder" "HOL-Library.Multiset"
begin

section \<open>JavaScript values used by the backend\<close>

text \<open>
  A JavaScript string is modelled as a \<open>string\<close> whose characters are the code units
  below 256 (the Latin-1 block), so that the accented letters of the Portuguese messages
  and of company names are single characters, as they are in JavaScript. Code units above
  255 are outside the model.
\<close>

text \<open>
  The white space of \<open>String.prototype.trim\<close> and of the regular expression class
  \<open>\s\<close>, on the Latin-1 block: TAB, LF, VT, FF, CR, SPACE and NO-BREAK SPACE.
\<close>

definition is_space :: "char \<Rightarrow> bool" where
  "is_space c = (c = CHR 0x09 \<or> c = CHR 0x0A \<or> c = CHR 0x0B \<or> c = CHR 0x0C \<or> c = CHR 0x0D
     \<or> c = CHR 0x20 \<or> c = CHR 0xA0)"

definition trim :: "string \<Rightarrow> string" where
  "trim s = rev (dropWhile is_space (rev (dropWhile is_space s)))"

text \<open>
  \<open>String.prototype.toLowerCase\<close> on the Latin-1 block: the letters A to Z, and the
  accented capitals 0xC0 to 0xDE except the multiplication sign 0xD7, move up by 32.
\<close>

definition lower_char :: "char \<Rightarrow> char" where
  "lower_char c =
     (let n = (of_char c :: nat)
      in if (65 \<le> n \<and> n \<le> 90) \<or> (192 \<le> n \<and> n \<le> 222 \<and> n \<noteq> 215) then char_of (n + 32) else c)"

definition toLowerCase :: "string \<Rightarrow> string" where
  "toLowerCase s = map lower_char s"

text \<open>\<open>s.split('/')\<close>: the segments between the slashes; never an empty array.\<close>

fun split_slash :: "string \<Rightarrow> string list" where
  "split_slash [] = [[]]"
| "split_slash (c # cs) =
     (case split_slash cs of
        [] \<Rightarrow> [[]]
      | seg # segs \<Rightarrow> if c = CHR ''/'' then [] # seg # segs else (c # seg) # segs)"

text \<open>
  A value that a property read of an object literal can produce: \<open>undefined\<close>, a string
  (an own property of the table), or a member inherited from \<open>Object.prototype\<close>
  (a function or an object, named here by its property name).
\<close>

datatype js_value = Undefined | Str string | Inherited string

fun truthy :: "js_value \<Rightarrow> bool" where
  "truthy Undefined = False"
| "truthy (Str s) = (s \<noteq> [])"
| "truthy (Inherited k) = True"

text \<open>The operator \<open>a || b\<close>.\<close>

definition js_or :: "js_value \<Rightarrow> js_value \<Rightarrow> js_value" where
  "js_or a b = (if truthy a then a else b)"

text \<open>The property names that every object literal inherits from \<open>Object.prototype\<close>.\<close>

definition Object_prototype :: "string list" where
  "Object_prototype =
     [''constructor'', ''__defineGetter__'', ''__defineSetter__'', ''hasOwnProperty'',
      ''__lookupGetter__'', ''__lookupSetter__'', ''isPrototypeOf'', ''propertyIsEnumerable'',
      ''toString'', ''valueOf'', ''__proto__'', ''toLocaleString'']"

text \<open>
  \<open>obj[k]\<close> for an object literal with the own properties \<open>own\<close>: the own property
  first, then the prototype chain, else \<open>undefined\<close>.
\<close>

definition get_property :: "(string \<times> string) list \<Rightarrow> string \<Rightarrow> js_value" where
  "get_property own k =
     (case map_of own k of
        Some v \<Rightarrow> Str v
      | None \<Rightarrow> if k \<in> set Object_prototype then Inherited k else Undefined)"

section \<open>scheduler.js: interval tokens\<close>

definition conversoes :: "(string \<times> string) list" where
  "conversoes =
     [(''10min'', ''*/10 * * * *''),
      (''30min'', ''*/30 * * * *''),
      (''1h'', ''0 * * * *''),
      (''3h'', ''0 */3 * * *''),
      (''6h'', ''0 */6 * * *''),
      (''12h'', ''0 */12 * * *''),
      (''diario'', ''0 9 * * *''),
      (''1d'', ''0 9 * * *''),
      (''semanal'', ''0 9 * * 1''),
      (''1w'', ''0 9 * * 1'')]"

definition intervalParaCron :: "string \<Rightarrow> js_value" where
  "intervalParaCron intervalo =
     js_or (get_property conversoes (toLowerCase intervalo)) (get_property conversoes ''1h'')"

section \<open>Errors and the outside world\<close>

text \<open>
  A thrown JavaScript error, with the properties the code reads: \<open>erro.code\<close> (the
  SQLSTATE of a database error), \<open>erro.message\<close>, \<open>erro.response.status\<close> (an HTTP
  error that came with a response) and \<open>erro.request\<close> (a request was sent).
\<close>

record erro =
  code :: "string option"
  message :: string
  response :: "nat option"
  request :: bool

definition Error :: "string \<Rightarrow> erro" where
  "Error msg = \<lparr>code = None, message = msg, response = None, request = False\<rparr>"

text \<open>A complaint card of a fetched document, as the queries of cheerio see it.\<close>

record cartao =
  texto_titulo :: string
  texto_descricao :: string
  texto_status :: string
  texto_data :: string
  texto_local :: string
  href :: "string option"

text \<open>
  A document is given by the nodes that \<open>$('.sc-1pe7b5t-0')\<close> selects, in document
  order; each node by the text of the elements its \<open>find\<close> queries select and by the
  \<open>href\<close> attribute of its first anchor (absent when there is none).
\<close>

type_synonym documento = "cartao list"

datatype axios_result = Resolved documento | Rejected erro

text \<open>
  What the outside world does during one call: whether \<open>pool.connect()\<close> rejects, whether
  the i-th \<open>client.query\<close> of the call rejects (with which error) before the statement
  runs, the value of \<open>CURRENT_TIMESTAMP\<close>, the n-th reading of the clock by
  \<open>new Date()\<close> in the text form of \<open>toISOString\<close>, and the outcome of
  \<open>axios.get\<close> on a URL. Output on the console is not part of the model.
\<close>

record ambiente =
  connect_error :: "erro option"
  query_error :: "nat \<Rightarrow> erro option"
  current_timestamp :: string
  clock :: "nat \<Rightarrow> string"
  axios_get :: "string \<Rightarrow> axios_result"

section \<open>database.js\<close>

text \<open>A complaint as the scraper builds it (the property \<open>id\<close> is \<open>id_reclamacao\<close>).\<close>

record reclamacao =
  id_reclamacao :: "string option"
  titulo :: string
  descricao :: string
  status :: string
  data :: string
  local :: string
  empresa :: string
  link :: "string option"
  coletadoEm :: string

text \<open>
  The table \<open>reclamacoes\<close>, with \<open>UNIQUE(id_externo, empresa)\<close>. Time stamps keep the
  text form of \<open>toISOString\<close>, whose lexicographic order is the order in time. The serial
  column \<open>id\<close> of the two tables is left out: no statement of the backend names it.
\<close>

record linha =
  col_id_externo :: "string option"
  col_empresa :: string
  col_titulo :: string
  col_descricao :: string
  col_status :: string
  col_data :: string
  col_local :: string
  col_link :: "string option"
  col_coletado_em :: string

text \<open>The table \<open>configuracoes\<close>, with \<open>empresa\<close> unique.\<close>

record configuracao =
  cfg_empresa :: string
  cfg_intervalo :: string
  cfg_ativo :: bool
  cfg_criado_em :: string
  cfg_atualizado_em :: string

record banco =
  reclamacoes :: "linha list"
  configuracoes :: "configuracao list"

definition banco_vazio :: banco where
  "banco_vazio = \<lparr>reclamacoes = [], configuracoes = []\<rparr>"

text \<open>
  The unique constraint on (id_externo, empresa): a NULL id_externo is distinct from
  every value, itself included, so a row without external id never conflicts.
\<close>

definition conflito :: "linha list \<Rightarrow> reclamacao \<Rightarrow> bool" where
  "conflito tabela r =
     (case id_reclamacao r of
        None \<Rightarrow> False
      | Some i \<Rightarrow> list_ex (\<lambda>l. col_id_externo l = Some i \<and> col_empresa l = empresa r) tabela)"

text \<open>
  \<open>INSERT INTO reclamacoes ... ON CONFLICT (id_externo, empresa) DO NOTHING\<close>: the
  statement either skips the row (row count 0) or appends it (row count 1). It raises
  nothing on a conflict.
\<close>

definition insert_reclamacao :: "banco \<Rightarrow> reclamacao \<Rightarrow> nat \<times> banco" where
  "insert_reclamacao b r =
     (if conflito (reclamacoes b) r then (0, b)
      else (1, b\<lparr>reclamacoes := reclamacoes b @
              [\<lparr>col_id_externo = id_reclamacao r, col_empresa = empresa r,
                col_titulo = titulo r, col_descricao = descricao r, col_status = status r,
                col_data = data r, col_local = local r, col_link = link r,
                col_coletado_em = coletadoEm r\<rparr>]\<rparr>))"

text \<open>The i-th \<open>client.query\<close> of the call, for the INSERT: it rejects or it runs.\<close>

definition query_insert_reclamacao ::
  "ambiente \<Rightarrow> nat \<Rightarrow> banco \<Rightarrow> reclamacao \<Rightarrow> (erro + nat) \<times> banco" where
  "query_insert_reclamacao amb i b r =
     (case query_error amb i of
        Some e \<Rightarrow> (Inl e, b)
      | None \<Rightarrow> (case insert_reclamacao b r of (rowCount, b') \<Rightarrow> (Inr rowCount, b')))"

record contagem =
  salvos :: nat
  duplicados :: nat

text \<open>
  The \<open>for\<close> loop of \<open>salvarReclamacoesDB\<close> with its inner \<open>try\<close>: a query that
  resolves counts as saved whatever its row count; a rejection with code 23505 counts as
  a duplicate; any other rejection is logged and the loop goes on.
\<close>

fun salvar_loop ::
  "ambiente \<Rightarrow> nat \<Rightarrow> reclamacao list \<Rightarrow> contagem \<Rightarrow> banco \<Rightarrow> contagem \<times> banco" where
  "salvar_loop amb i [] c b = (c, b)"
| "salvar_loop amb i (r # resto) c b =
     (case query_insert_reclamacao amb i b r of
        (Inr rowCount, b') \<Rightarrow> salvar_loop amb (Suc i) resto (c\<lparr>salvos := Suc (salvos c)\<rparr>) b'
      | (Inl erro, b') \<Rightarrow>
          if code erro = Some ''23505''
          then salvar_loop amb (Suc i) resto (c\<lparr>duplicados := Suc (duplicados c)\<rparr>) b'
          else salvar_loop amb (Suc i) resto c b')"

text \<open>
  \<open>pool.connect()\<close> is awaited before the outer \<open>try\<close>: its rejection reaches the
  caller. Nothing else in the outer \<open>try\<close> throws.
\<close>

definition salvarReclamacoesDB ::
  "ambiente \<Rightarrow> banco \<Rightarrow> reclamacao list \<Rightarrow> (erro + contagem) \<times> banco" where
  "salvarReclamacoesDB amb b rs =
     (case connect_error amb of
        Some e \<Rightarrow> (Inl e, b)
      | None \<Rightarrow>
          (case salvar_loop amb 0 rs \<lparr>salvos = 0, duplicados = 0\<rparr> b of
             (c, b') \<Rightarrow> (Inr c, b')))"

text \<open>\<open>ORDER BY coletado_em DESC\<close> (the order among equal time stamps is one of those SQL allows).\<close>

definition order_by_coletado_em_desc :: "linha list \<Rightarrow> linha list" where
  "order_by_coletado_em_desc rows = rev (sort_key col_coletado_em rows)"

text \<open>
  \<open>buscarReclamacoesDB(empresa, limite = 50)\<close>: \<open>None\<close> is an argument left out
  (\<open>undefined\<close>). PostgreSQL rejects a negative LIMIT with SQLSTATE 2201W.
\<close>

definition buscarReclamacoesDB ::
  "ambiente \<Rightarrow> banco \<Rightarrow> string \<Rightarrow> int option \<Rightarrow> erro + linha list" where
  "buscarReclamacoesDB amb b nome limite_arg =
     (let limite = (case limite_arg of None \<Rightarrow> 50 | Some n \<Rightarrow> n)
      in case connect_error amb of
           Some e \<Rightarrow> Inl e
         | None \<Rightarrow>
             (case query_error amb 0 of
                Some e \<Rightarrow> Inl e
              | None \<Rightarrow>
                  if limite < 0
                  then Inl \<lparr>code = Some ''2201W'', message = ''LIMIT must not be negative'',
                             response = None, request = False\<rparr>
                  else Inr (take (nat limite)
                         (order_by_coletado_em_desc
                            (filter (\<lambda>l. col_empresa l = nome) (reclamacoes b))))))"

text \<open>
  \<open>INSERT INTO configuracoes ... ON CONFLICT (empresa) DO UPDATE SET intervalo, ativo = true,
  atualizado_em = CURRENT_TIMESTAMP\<close>.
\<close>

definition upsert_configuracao :: "string \<Rightarrow> banco \<Rightarrow> string \<Rightarrow> string \<Rightarrow> banco" where
  "upsert_configuracao agora b nome intervalo_novo =
     (if list_ex (\<lambda>c. cfg_empresa c = nome) (configuracoes b)
      then b\<lparr>configuracoes :=
              map (\<lambda>c. if cfg_empresa c = nome
                        then c\<lparr>cfg_intervalo := intervalo_novo, cfg_ativo := True,
                               cfg_atualizado_em := agora\<rparr>
                        else c) (configuracoes b)\<rparr>
      else b\<lparr>configuracoes := configuracoes b @
              [\<lparr>cfg_empresa = nome, cfg_intervalo = intervalo_novo,
                cfg_ativo = True, cfg_criado_em = agora, cfg_atualizado_em = agora\<rparr>]\<rparr>)"

text \<open>\<open>salvarConfiguracao\<close>: the \<open>catch\<close> logs and rethrows.\<close>

definition salvarConfiguracao ::
  "ambiente \<Rightarrow> banco \<Rightarrow> string \<Rightarrow> string \<Rightarrow> (erro + unit) \<times> banco" where
  "salvarConfiguracao amb b nome intervalo_novo =
     (case connect_error amb of
        Some e \<Rightarrow> (Inl e, b)
      | None \<Rightarrow>
          (case query_error amb 0 of
             Some e \<Rightarrow> (Inl e, b)
           | None \<Rightarrow> (Inr (), upsert_configuracao (current_timestamp amb) b nome intervalo_novo)))"

section \<open>scraper.js\<close>

definition BASE_URL :: string where
  "BASE_URL = ''https://www.reclameaqui.com.br''"

definition MAX_RECLAMACOES :: nat where
  "MAX_RECLAMACOES = 20"

text \<open>
  \<open>normalize('NFD')\<close> followed by the removal of the combining marks U+0300 to U+036F,
  on the Latin-1 block: an accented letter becomes its base letter; the letters without
  a canonical decomposition (AE, ETH, O with stroke, THORN, sharp s) stay.
\<close>

definition sem_acento :: "char \<Rightarrow> char" where
  "sem_acento c =
     (let n = (of_char c :: nat)
      in if 192 \<le> n \<and> n \<le> 197 then CHR ''A''
         else if n = 199 then CHR ''C''
         else if 200 \<le> n \<and> n \<le> 203 then CHR ''E''
         else if 204 \<le> n \<and> n \<le> 207 then CHR ''I''
         else if n = 209 then CHR ''N''
         else if 210 \<le> n \<and> n \<le> 214 then CHR ''O''
         else if 217 \<le> n \<and> n \<le> 220 then CHR ''U''
         else if n = 221 then CHR ''Y''
         else if 224 \<le> n \<and> n \<le> 229 then CHR ''a''
         else if n = 231 then CHR ''c''
         else if 232 \<le> n \<and> n \<le> 235 then CHR ''e''
         else if 236 \<le> n \<and> n \<le> 239 then CHR ''i''
         else if n = 241 then CHR ''n''
         else if 242 \<le> n \<and> n \<le> 246 then CHR ''o''
         else if 249 \<le> n \<and> n \<le> 252 then CHR ''u''
         else if n = 253 \<or> n = 255 then CHR ''y''
         else c)"

text \<open>The class \<open>\w\<close>: ASCII letters, digits and the underscore.\<close>

definition is_word :: "char \<Rightarrow> bool" where
  "is_word c =
     (let n = (of_char c :: nat)
      in (48 \<le> n \<and> n \<le> 57) \<or> (65 \<le> n \<and> n \<le> 90) \<or> n = 95 \<or> (97 \<le> n \<and> n \<le> 122))"

text \<open>\<open>replace(/\s+/g, '-')\<close>: each maximal run of white space becomes one hyphen.\<close>

fun hifens :: "bool \<Rightarrow> string \<Rightarrow> string" where
  "hifens em_espaco [] = []"
| "hifens em_espaco (c # cs) =
     (if is_space c then (if em_espaco then hifens True cs else CHR ''-'' # hifens True cs)
      else c # hifens False cs)"

definition empresaFormatada :: "string \<Rightarrow> string" where
  "empresaFormatada nomeEmpresa =
     hifens False
       (filter (\<lambda>c. is_word c \<or> is_space c) (map sem_acento (toLowerCase nomeEmpresa)))"

definition urlBusca :: "string \<Rightarrow> string" where
  "urlBusca nomeEmpresa =
     BASE_URL @ ''/empresa/'' @ empresaFormatada nomeEmpresa @ ''/lista-reclamacoes/''"

text \<open>\<open>a || b\<close> on strings: the empty string is falsy.\<close>

definition str_or :: "string \<Rightarrow> string \<Rightarrow> string" where
  "str_or a b = (if a \<noteq> [] then a else b)"

definition Sem_descricao :: string where
  "Sem_descricao = ''Sem descri'' @ [CHR 0xE7, CHR 0xE3] @ ''o''"

definition Nao_informado :: string where
  "Nao_informado = ''N'' @ [CHR 0xE3] @ ''o informado''"

text \<open>
  \<open>item.find('a').attr('href')?.split('/').pop() || null\<close>: the last path segment,
  \<open>null\<close> when there is no href or the segment is empty.
\<close>

definition extrair_id :: "string option \<Rightarrow> string option" where
  "extrair_id h =
     (case h of
        None \<Rightarrow> None
      | Some url \<Rightarrow>
          (case rev (split_slash url) of
             [] \<Rightarrow> None
           | seg # _ \<Rightarrow> if seg = [] then None else Some seg))"

text \<open>
  The callback of \<open>.each\<close>, with the index of the node and the number \<open>n\<close> of clock
  readings made so far. \<open>return false\<close> ends the iteration. The properties of the
  object literal are evaluated in order, so the clock is read for \<open>data\<close> only when the
  date text is empty, and then again for \<open>coletadoEm\<close>.
\<close>

fun each_cartao ::
  "ambiente \<Rightarrow> string \<Rightarrow> nat \<Rightarrow> nat \<Rightarrow> cartao list \<Rightarrow> reclamacao list \<Rightarrow> reclamacao list" where
  "each_cartao amb nomeEmpresa index n [] acc = acc"
| "each_cartao amb nomeEmpresa index n (elemento # resto) acc =
     (if index \<ge> MAX_RECLAMACOES then acc
      else
        let t = trim (texto_titulo elemento);
            d = trim (texto_descricao elemento);
            st = trim (texto_status elemento);
            dt = trim (texto_data elemento);
            lo = trim (texto_local elemento);
            i = extrair_id (href elemento)
        in if t \<noteq> []
           then
             let n1 = (if dt \<noteq> [] then n else Suc n)
             in each_cartao amb nomeEmpresa (Suc index) (Suc n1) resto
                  (acc @
                   [\<lparr>id_reclamacao = i,
                     titulo = t,
                     descricao = str_or d Sem_descricao,
                     status = str_or st Nao_informado,
                     data = (if dt \<noteq> [] then dt else clock amb n),
                     local = str_or lo Nao_informado,
                     empresa = nomeEmpresa,
                     link = (case i of None \<Rightarrow> None
                             | Some v \<Rightarrow> Some (BASE_URL @ ''/reclamacao/'' @ v)),
                     coletadoEm = clock amb n1\<rparr>])
           else each_cartao amb nomeEmpresa (Suc index) n resto acc)"

definition Empresa_nao_encontrada :: string where
  "Empresa_nao_encontrada = ''Empresa n'' @ [CHR 0xE3] @ ''o encontrada no Reclame Aqui''"

definition Acesso_bloqueado :: string where
  "Acesso_bloqueado = ''Acesso bloqueado pelo Reclame Aqui''"

definition Sem_resposta :: string where
  "Sem_resposta = ''Sem resposta do servidor''"

text \<open>
  \<open>buscarReclamacoes\<close>: the request, the extraction, and the \<open>catch\<close> that maps the
  rejection of the request.
\<close>

definition buscarReclamacoes :: "ambiente \<Rightarrow> string \<Rightarrow> erro + reclamacao list" where
  "buscarReclamacoes amb nomeEmpresa =
     (case axios_get amb (urlBusca nomeEmpresa) of
        Resolved doc \<Rightarrow> Inr (each_cartao amb nomeEmpresa 0 0 doc [])
      | Rejected erro \<Rightarrow>
          (case response erro of
             Some st \<Rightarrow>
               if st = 404 then Inl (Error Empresa_nao_encontrada)
               else if st = 403 then Inl (Error Acesso_bloqueado)
               else Inl erro
           | None \<Rightarrow> if request erro then Inl (Error Sem_resposta) else Inl erro))"

section \<open>scheduler.js: the job registry\<close>

text \<open>A task of node-cron: its pattern, the company its callback monitors, whether it still fires.\<close>

record tarefa =
  expressao :: string
  alvo :: string
  agendada :: bool

text \<open>An entry of the Map \<open>jobsAtivos\<close>; \<open>job\<close> refers to a task by its position.\<close>

record jobInfo =
  job :: nat
  intervalo :: string
  iniciado :: string

text \<open>
  The state of the process: the database, the Map \<open>jobsAtivos\<close> in insertion order, the
  tasks of node-cron, and the companies for which \<open>executarMonitoramento\<close> has been
  launched (the cycle itself runs after the launching call has returned).
\<close>

record sistema =
  banco_dados :: banco
  jobsAtivos :: "(string \<times> jobInfo) list"
  tarefas :: "tarefa list"
  ciclos_lancados :: "string list"

definition Map_has :: "(string \<times> 'v) list \<Rightarrow> string \<Rightarrow> bool" where
  "Map_has m k = (map_of m k \<noteq> None)"

definition Map_delete :: "string \<Rightarrow> (string \<times> 'v) list \<Rightarrow> (string \<times> 'v) list" where
  "Map_delete k m = filter (\<lambda>kv. fst kv \<noteq> k) m"

definition Map_set :: "string \<Rightarrow> 'v \<Rightarrow> (string \<times> 'v) list \<Rightarrow> (string \<times> 'v) list" where
  "Map_set k v m =
     (if Map_has m k then map (\<lambda>kv. if fst kv = k then (k, v) else kv) m else m @ [(k, v)])"

text \<open>\<open>job.stop()\<close>.\<close>

definition job_stop :: "nat \<Rightarrow> tarefa list \<Rightarrow> tarefa list" where
  "job_stop h ts = (if h < length ts then ts[h := (ts ! h)\<lparr>agendada := False\<rparr>] else ts)"

text \<open>
  \<open>cron.schedule(expressao, callback, options)\<close>: node-cron throws when the pattern is
  not a string; the strings of the table are valid patterns.
\<close>

definition cron_schedule :: "js_value \<Rightarrow> string \<Rightarrow> tarefa list \<Rightarrow> erro + (nat \<times> tarefa list)" where
  "cron_schedule expressaoCron nome ts =
     (case expressaoCron of
        Str p \<Rightarrow> Inr (length ts, ts @ [\<lparr>expressao = p, alvo = nome, agendada = True\<rparr>])
      | _ \<Rightarrow> Inl (Error ''pattern must be a string!''))"

definition pararMonitoramento :: "sistema \<Rightarrow> string \<Rightarrow> bool \<times> sistema" where
  "pararMonitoramento s nome =
     (case map_of (jobsAtivos s) nome of
        Some jobInfo \<Rightarrow>
          (True, s\<lparr>tarefas := job_stop (job jobInfo) (tarefas s),
                   jobsAtivos := Map_delete nome (jobsAtivos s)\<rparr>)
      | None \<Rightarrow> (False, s))"

text \<open>
  \<open>iniciarMonitoramento\<close>. The first clock reading of the call is the one of the log
  line of \<open>executarMonitoramento\<close>; \<open>iniciado\<close> is the second.
\<close>

definition iniciarMonitoramento ::
  "ambiente \<Rightarrow> sistema \<Rightarrow> string \<Rightarrow> string \<Rightarrow> (erro + bool) \<times> sistema" where
  "iniciarMonitoramento amb s nome intervalo_pedido =
     (let s1 = snd (pararMonitoramento s nome);
          expressaoCron = intervalParaCron intervalo_pedido;
          s2 = s1\<lparr>ciclos_lancados := ciclos_lancados s1 @ [nome]\<rparr>
      in case cron_schedule expressaoCron nome (tarefas s2) of
           Inl erro \<Rightarrow> (Inl erro, s2)
         | Inr (h, ts) \<Rightarrow>
             (Inr True,
              s2\<lparr>tarefas := ts,
                 jobsAtivos := Map_set nome
                   \<lparr>job = h, intervalo = intervalo_pedido, iniciado = clock amb 1\<rparr>
                   (jobsAtivos s2)\<rparr>))"

section \<open>The server's routes\<close>

datatype resposta = Status200 | Status400 | Status500 string

text \<open>
  \<open>POST /api/monitoramento/iniciar\<close>; the fields of the body are strings, \<open>None\<close>
  when missing. \<open>Status500\<close> carries \<open>detalhes\<close>, the message of the error.
\<close>

definition post_iniciar ::
  "ambiente \<Rightarrow> sistema \<Rightarrow> string option \<Rightarrow> string option \<Rightarrow> resposta \<times> sistema" where
  "post_iniciar amb s body_empresa body_intervalo =
     (case (body_empresa, body_intervalo) of
        (Some nome, Some intervalo_pedido) \<Rightarrow>
          if nome = [] \<or> intervalo_pedido = [] then (Status400, s)
          else
            (case salvarConfiguracao amb (banco_dados s) nome intervalo_pedido of
               (Inl erro, b) \<Rightarrow> (Status500 (message erro), s\<lparr>banco_dados := b\<rparr>)
             | (Inr u, b) \<Rightarrow>
                 (case iniciarMonitoramento amb (s\<lparr>banco_dados := b\<rparr>) nome intervalo_pedido of
                    (Inl erro, s') \<Rightarrow> (Status500 (message erro), s')
                  | (Inr ok, s') \<Rightarrow> (Status200, s')))
      | _ \<Rightarrow> (Status400, s))"

text \<open>\<open>POST /api/monitoramento/parar\<close>.\<close>

definition post_parar :: "sistema \<Rightarrow> string option \<Rightarrow> resposta \<times> sistema" where
  "post_parar s body_empresa =
     (case body_empresa of
        None \<Rightarrow> (Status400, s)
      | Some nome \<Rightarrow>
          if nome = [] then (Status400, s)
          else (Status200, snd (pararMonitoramento s nome)))"

text \<open>
  \<open>GET /api/reclamacoes/:empresa\<close>; \<open>limite_query\<close> is the value of
  \<open>parseInt(req.query.limite)\<close>, \<open>None\<close> for NaN. The result is the rows of the
  response, or \<open>detalhes\<close> of the status 500.
\<close>

definition get_reclamacoes ::
  "ambiente \<Rightarrow> sistema \<Rightarrow> string \<Rightarrow> int option \<Rightarrow> string + linha list" where
  "get_reclamacoes amb s nome limite_query =
     (let limite = (case limite_query of None \<Rightarrow> 50 | Some n \<Rightarrow> if n = 0 then 50 else n)
      in case buscarReclamacoesDB amb (banco_dados s) nome (Some limite) of
           Inl erro \<Rightarrow> Inl (message erro)
         | Inr rows \<Rightarrow> Inr rows)"

section \<open>Auxiliary notions for the statements\<close>

text \<open>
  The records of a batch whose INSERT the database does not reject, \<open>i\<close> being the
  number of the batch's first query.
\<close>

definition aceitas :: "ambiente \<Rightarrow> nat \<Rightarrow> reclamacao list \<Rightarrow> reclamacao list" where
  "aceitas amb i rs =
     map fst (filter (\<lambda>rj. query_error amb (snd rj) = None) (zip rs [i..<i + length rs]))"

text \<open>The same outside world, with a database that rejects no query.\<close>

definition sem_rejeicoes :: "ambiente \<Rightarrow> ambiente" where
  "sem_rejeicoes amb = amb\<lparr>query_error := (\<lambda>i. None)\<rparr>"

text \<open>The \<open>code\<close> of the error that rejects the i-th query, if it is rejected and has one.\<close>

definition codigo_rejeicao :: "ambiente \<Rightarrow> nat \<Rightarrow> string option" where
  "codigo_rejeicao amb i = (case query_error amb i of None \<Rightarrow> None | Some e \<Rightarrow> code e)"

text \<open>The ledger holds an active row for the company with the interval.\<close>

definition ledger_ativo :: "banco \<Rightarrow> string \<Rightarrow> string \<Rightarrow> bool" where
  "ledger_ativo b nome intervalo_pedido =
     list_ex (\<lambda>c. cfg_empresa c = nome \<and> cfg_intervalo c = intervalo_pedido \<and> cfg_ativo c)
       (configuracoes b)"

text \<open>
  The complaint that the extraction builds from a card: the trimmed texts, with the default
  of each empty one. An empty date is replaced by a reading of the clock, and the collection
  time stamp is the reading that follows it.
\<close>

definition extraida_de :: "ambiente \<Rightarrow> string \<Rightarrow> cartao \<Rightarrow> reclamacao \<Rightarrow> bool" where
  "extraida_de amb nome c r =
     (titulo r = trim (texto_titulo c) \<and>
      descricao r =
        (if trim (texto_descricao c) = [] then Sem_descricao else trim (texto_descricao c)) \<and>
      status r = (if trim (texto_status c) = [] then Nao_informado else trim (texto_status c)) \<and>
      (if trim (texto_data c) = []
       then (\<exists>n. data r = clock amb n \<and> coletadoEm r = clock amb (Suc n))
       else data r = trim (texto_data c) \<and> (\<exists>n. coletadoEm r = clock amb n)) \<and>
      local r = (if trim (texto_local c) = [] then Nao_informado else trim (texto_local c)) \<and>
      empresa r = nome)"

text \<open>The row that the INSERT statement builds from a complaint.\<close>

definition linha_de :: "reclamacao \<Rightarrow> linha" where
  "linha_de r =
     \<lparr>col_id_externo = id_reclamacao r, col_empresa = empresa r, col_titulo = titulo r,
      col_descricao = descricao r, col_status = status r, col_data = data r,
      col_local = local r, col_link = link r, col_coletado_em = coletadoEm r\<rparr>"

text \<open>
  The key (external id, entity) of a complaint and of a stored row; there is none without
  an external id.
\<close>

definition chave :: "reclamacao \<Rightarrow> (string \<times> string) option" where
  "chave r = (case id_reclamacao r of None \<Rightarrow> None | Some i \<Rightarrow> Some (i, empresa r))"

definition chave_linha :: "linha \<Rightarrow> (string \<times> string) option" where
  "chave_linha l = (case col_id_externo l of None \<Rightarrow> None | Some i \<Rightarrow> Some (i, col_empresa l))"

text \<open>The keys of the rows of a table, in order.\<close>

fun chaves :: "linha list \<Rightarrow> (string \<times> string) list" where
  "chaves [] = []"
| "chaves (l # ls) = (case chave_linha l of None \<Rightarrow> chaves ls | Some k \<Rightarrow> k # chaves ls)"

text \<open>
  What the store is to keep of a batch, in the words of the specification: a record whose
  key is already present is skipped, the keys present being those seen so far,
  \<open>vistas\<close>; a record without external id is never deduplicated.
\<close>

fun inseridas_spec :: "(string \<times> string) list \<Rightarrow> reclamacao list \<Rightarrow> reclamacao list" where
  "inseridas_spec vistas [] = []"
| "inseridas_spec vistas (r # rs) =
     (case chave r of
        None \<Rightarrow> r # inseridas_spec vistas rs
      | Some k \<Rightarrow>
          if k \<in> set vistas then inseridas_spec vistas rs
          else r # inseridas_spec (k # vistas) rs)"

subsection \<open>Concrete inputs\<close>

definition documento_exemplo :: documento where
  "documento_exemplo =
     [\<lparr>texto_titulo = '' Produto com defeito '', texto_descricao = [],
       texto_status = ''Respondida'', texto_data = [], texto_local = ''  '',
       href = Some ''/empresa/acme/produto_123''\<rparr>,
      \<lparr>texto_titulo = ''   '', texto_descricao = ''Nunca chegou'',
       texto_status = ''Resolvido'', texto_data = ''01/02/2026'', texto_local = ''Recife'',
       href = Some ''/empresa/acme/x_456''\<rparr>]"

definition ambiente_exemplo :: ambiente where
  "ambiente_exemplo =
     \<lparr>connect_error = None,
      query_error = (\<lambda>i. None),
      current_timestamp = ''2026-01-01 10:00:00'',
      clock = (\<lambda>n. if n = 0 then ''2026-01-01T10:00:00.000Z'' else ''2026-01-01T10:00:00.001Z''),
      axios_get = (\<lambda>url. Resolved documento_exemplo)\<rparr>"

definition erro_22001 :: erro where
  "erro_22001 =
     \<lparr>code = Some ''22001'', message = ''value too long for type character varying(100)'',
      response = None, request = False\<rparr>"

text \<open>A database that rejects the second query of a call.\<close>

definition ambiente_rejeita :: ambiente where
  "ambiente_rejeita =
     ambiente_exemplo\<lparr>query_error := (\<lambda>i. if i = 1 then Some erro_22001 else None)\<rparr>"

text \<open>A database whose pool gives no connection.\<close>

definition ambiente_sem_conexao :: ambiente where
  "ambiente_sem_conexao =
     ambiente_exemplo\<lparr>connect_error := Some (Error ''connect ECONNREFUSED 127.0.0.1:5432'')\<rparr>"

definition reclamacao_exemplo :: reclamacao where
  "reclamacao_exemplo =
     \<lparr>id_reclamacao = Some ''produto_123'', titulo = ''Produto com defeito'',
      descricao = ''Parou de funcionar'', status = ''Respondida'', data = ''01/02/2026'',
      local = ''Recife'', empresa = ''Acme'',
      link = Some ''https://www.reclameaqui.com.br/reclamacao/produto_123'',
      coletadoEm = ''2026-01-01T10:00:00.000Z''\<rparr>"

definition reclamacao_outra :: reclamacao where
  "reclamacao_outra =
     reclamacao_exemplo\<lparr>id_reclamacao := Some ''x_456'', titulo := ''Nunca chegou'',
       link := Some ''https://www.reclameaqui.com.br/reclamacao/x_456'',
       coletadoEm := ''2026-01-02T10:00:00.000Z''\<rparr>"

definition reclamacao_sem_id :: reclamacao where
  "reclamacao_sem_id = reclamacao_exemplo\<lparr>id_reclamacao := None, link := None\<rparr>"

text \<open>The complaint of the example, filed against another company: a key not yet stored.\<close>

definition reclamacao_nova :: reclamacao where
  "reclamacao_nova = reclamacao_exemplo\<lparr>empresa := ''Nova''\<rparr>"

definition sistema_inicial :: sistema where
  "sistema_inicial =
     \<lparr>banco_dados = banco_vazio, jobsAtivos = [], tarefas = [], ciclos_lancados = []\<rparr>"

text \<open>The outside world in which every request has the given outcome.\<close>

definition ambiente_http :: "axios_result \<Rightarrow> ambiente" where
  "ambiente_http r = ambiente_exemplo\<lparr>axios_get := (\<lambda>url. r)\<rparr>"

text \<open>The error of axios for a response with a status outside 2xx.\<close>

definition erro_status :: "nat \<Rightarrow> erro" where
  "erro_status st =
     \<lparr>code = Some ''ERR_BAD_REQUEST'', message = ''Request failed'', response = Some st,
      request = True\<rparr>"

text \<open>The error of axios for a request that got no response.\<close>

definition erro_timeout :: erro where
  "erro_timeout =
     \<lparr>code = Some ''ECONNABORTED'', message = ''timeout of 10000ms exceeded'', response = None,
      request = True\<rparr>"

definition cartao_exemplo :: cartao where
  "cartao_exemplo =
     \<lparr>texto_titulo = ''Cobran'' @ [CHR 0xE7] @ ''a indevida'', texto_descricao = ''Valor em dobro'',
      texto_status = ''Respondida'', texto_data = ''03/02/2026'', texto_local = ''Natal'',
      href = None\<rparr>"

text \<open>A store with three complaints of Acme and one of another company.\<close>

definition banco_exemplo :: banco where
  "banco_exemplo =
     snd (salvarReclamacoesDB ambiente_exemplo banco_vazio
       [reclamacao_exemplo, reclamacao_outra, reclamacao_sem_id,
        reclamacao_exemplo\<lparr>empresa := ''Outra''\<rparr>])"

text \<open>The process after a successful start of the monitoring of Acme every 30 minutes.\<close>

definition sistema_monitorando :: sistema where
  "sistema_monitorando =
     snd (post_iniciar ambiente_exemplo sistema_inicial (Some ''Acme'') (Some ''30min''))"

section \<open>The deduplicating store\<close>

subsection \<open>The INSERT statement and the loop\<close>

lemma query_insert_cases:
  "query_insert_reclamacao amb i b r =
     (case query_error amb i of
        Some e \<Rightarrow> (Inl e, b)
      | None \<Rightarrow> (Inr (fst (insert_reclamacao b r)), snd (insert_reclamacao b r)))"
  by (simp add: query_insert_reclamacao_def split: option.splits prod.splits)

lemma salvar_loop_step:
  "salvar_loop amb i (r # resto) c b =
     (case query_error amb i of
        None \<Rightarrow> salvar_loop amb (Suc i) resto (c\<lparr>salvos := Suc (salvos c)\<rparr>)
                  (snd (insert_reclamacao b r))
      | Some e \<Rightarrow>
          if code e = Some ''23505''
          then salvar_loop amb (Suc i) resto (c\<lparr>duplicados := Suc (duplicados c)\<rparr>) b
          else salvar_loop amb (Suc i) resto c b)"
  by (simp add: query_insert_cases split: option.splits)

lemma insert_reclamacao_conflito:
  "conflito (reclamacoes b) r \<Longrightarrow> insert_reclamacao b r = (0, b)"
  by (simp add: insert_reclamacao_def)

lemma salvar_loop_conflitos:
  "\<forall>r\<in>set rs. conflito (reclamacoes b) r \<Longrightarrow> snd (salvar_loop amb i rs c b) = b"
proof (induction rs arbitrary: i c)
  case Nil
  then show ?case by simp
next
  case (Cons r rs)
  have same: "snd (insert_reclamacao b r) = b"
    using Cons.prems by (simp add: insert_reclamacao_conflito)
  have rest: "\<forall>x\<in>set rs. conflito (reclamacoes b) x"
    using Cons.prems by simp
  show ?case
    using Cons.IH[OF rest] same
    by (simp add: salvar_loop_step del: salvar_loop.simps split: option.splits)
qed

lemma upt_shift: "[i..<i + Suc n] = i # [Suc i..<Suc i + n]"
  by (simp add: upt_conv_Cons)

lemma aceitas_Nil: "aceitas amb i [] = []"
  by (simp add: aceitas_def)

lemma aceitas_Cons:
  "aceitas amb i (r # rs) =
     (if query_error amb i = None then r # aceitas amb (Suc i) rs else aceitas amb (Suc i) rs)"
  unfolding aceitas_def length_Cons upt_shift by simp

lemma salvar_loop_contagem:
  "fst (salvar_loop amb i rs c b) =
     \<lparr>salvos = salvos c + length [j\<leftarrow>[i..<i + length rs]. query_error amb j = None],
      duplicados = duplicados c +
        length [j\<leftarrow>[i..<i + length rs]. codigo_rejeicao amb j = Some ''23505'']\<rparr>"
proof (induction rs arbitrary: i c b)
  case Nil
  then show ?case by simp
next
  case (Cons r rs)
  show ?case
    unfolding length_Cons upt_shift salvar_loop_step
    by (simp add: Cons.IH codigo_rejeicao_def split: option.splits)
qed

lemma salvar_loop_aceitas:
  "snd (salvar_loop amb i rs c b) =
   snd (salvar_loop (sem_rejeicoes amb) i' (aceitas amb i rs) c' b)"
proof (induction rs arbitrary: i i' c c' b)
  case Nil
  then show ?case by (simp add: aceitas_Nil)
next
  case (Cons r rs)
  have q: "query_error (sem_rejeicoes amb) i' = None"
    by (simp add: sem_rejeicoes_def)
  show ?case
  proof (cases "query_error amb i")
    case None
    have "snd (salvar_loop amb (Suc i) rs (c\<lparr>salvos := Suc (salvos c)\<rparr>) (snd (insert_reclamacao b r))) =
          snd (salvar_loop (sem_rejeicoes amb) (Suc i') (aceitas amb (Suc i) rs)
                 (c'\<lparr>salvos := Suc (salvos c')\<rparr>) (snd (insert_reclamacao b r)))"
      by (rule Cons.IH)
    then show ?thesis
      using None q by (simp add: aceitas_Cons salvar_loop_step del: salvar_loop.simps)
  next
    case (Some e)
    have "snd (salvar_loop amb (Suc i) rs c b) =
          snd (salvar_loop (sem_rejeicoes amb) i' (aceitas amb (Suc i) rs) c' b)"
      and "snd (salvar_loop amb (Suc i) rs (c\<lparr>duplicados := Suc (duplicados c)\<rparr>) b) =
          snd (salvar_loop (sem_rejeicoes amb) i' (aceitas amb (Suc i) rs) c' b)"
      by (rule Cons.IH)+
    then show ?thesis
      using Some by (simp add: aceitas_Cons salvar_loop_step del: salvar_loop.simps)
  qed
qed

lemma snd_salvarReclamacoesDB:
  "snd (salvarReclamacoesDB amb b rs) =
     (case connect_error amb of
        Some e \<Rightarrow> b
      | None \<Rightarrow> snd (salvar_loop amb 0 rs \<lparr>salvos = 0, duplicados = 0\<rparr> b))"
  by (simp add: salvarReclamacoesDB_def split: option.splits prod.splits)

lemma fst_salvarReclamacoesDB:
  "fst (salvarReclamacoesDB amb b rs) =
     (case connect_error amb of
        Some e \<Rightarrow> Inl e
      | None \<Rightarrow> Inr (fst (salvar_loop amb 0 rs \<lparr>salvos = 0, duplicados = 0\<rparr> b)))"
  by (simp add: salvarReclamacoesDB_def split: option.splits prod.splits)

lemma filter_three:
  "length [x\<leftarrow>xs. P x] + length [x\<leftarrow>xs. \<not> P x \<and> Q x] + length [x\<leftarrow>xs. \<not> P x \<and> \<not> Q x] = length xs"
  by (induction xs) auto

text \<open>
  With a database that rejects nothing, every record of a batch is counted as saved and
  none as a duplicate, whatever the table holds: the statement resolves on a conflict too.
\<close>

lemma salvarReclamacoesDB_counts_all_saved:
  assumes "connect_error amb = None" and "\<forall>i<length rs. query_error amb i = None"
  shows "fst (salvarReclamacoesDB amb b rs) = Inr \<lparr>salvos = length rs, duplicados = 0\<rparr>"
proof -
  have 1: "[i\<leftarrow>[0..<length rs]. query_error amb i = None] = [0..<length rs]"
    using assms(2) by (simp add: filter_id_conv)
  have 2: "[i\<leftarrow>[0..<length rs]. codigo_rejeicao amb i = Some ''23505''] = []"
    using assms(2) by (simp add: filter_empty_conv codigo_rejeicao_def)
  show ?thesis
    using assms(1) by (simp add: fst_salvarReclamacoesDB salvar_loop_contagem 1 2)
qed

subsection \<open>Keys\<close>

lemma chave_linha_de: "chave_linha (linha_de r) = chave r"
  by (simp add: chave_linha_def chave_def linha_de_def split: option.splits)

lemma chave_None_iff: "chave r = None \<longleftrightarrow> id_reclamacao r = None"
  by (simp add: chave_def split: option.splits)

lemma chaves_append: "chaves (xs @ ys) = chaves xs @ chaves ys"
  by (induction xs) (simp_all split: option.splits)

lemma set_chaves: "set (chaves t) = {k. \<exists>l\<in>set t. chave_linha l = Some k}"
  by (induction t) (auto split: option.splits)

lemma conflito_chaves: "conflito t r \<longleftrightarrow> (\<exists>k. chave r = Some k \<and> k \<in> set (chaves t))"
  by (auto simp: conflito_def chave_def chave_linha_def set_chaves list_ex_iff
      split: option.splits)

lemma insert_reclamacao_linha_de:
  "snd (insert_reclamacao b r) =
     (if conflito (reclamacoes b) r then b
      else b\<lparr>reclamacoes := reclamacoes b @ [linha_de r]\<rparr>)"
  by (simp add: insert_reclamacao_def linha_de_def)

lemma inseridas_spec_cong:
  "set v = set v' \<Longrightarrow> inseridas_spec v rs = inseridas_spec v' rs"
proof (induction rs arbitrary: v v')
  case Nil
  then show ?case by simp
next
  case (Cons r rs)
  show ?case
  proof (cases "chave r")
    case None
    then show ?thesis using Cons.IH[OF Cons.prems] by simp
  next
    case (Some k)
    have "set (k # v) = set (k # v')" using Cons.prems by simp
    then have "inseridas_spec (k # v) rs = inseridas_spec (k # v') rs" by (rule Cons.IH)
    then show ?thesis using Some Cons.prems Cons.IH[OF Cons.prems] by simp
  qed
qed

lemma inseridas_spec_vistas:
  "\<forall>r\<in>set rs. \<forall>k. chave r = Some k \<longrightarrow> k \<in> set v \<Longrightarrow>
   inseridas_spec v rs = filter (\<lambda>r. id_reclamacao r = None) rs"
proof (induction rs)
  case Nil
  then show ?case by simp
next
  case (Cons r rs)
  then show ?case
    by (cases "chave r") (auto simp: chave_None_iff[symmetric])
qed

lemma inseridas_spec_chaves:
  "distinct (chaves (map linha_de (inseridas_spec v rs))) \<and>
   set (chaves (map linha_de (inseridas_spec v rs))) \<inter> set v = {}"
proof (induction rs arbitrary: v)
  case Nil
  then show ?case by simp
next
  case (Cons r rs)
  show ?case
  proof (cases "chave r")
    case None
    then show ?thesis using Cons.IH[of v] by (simp add: chave_linha_de)
  next
    case (Some k)
    show ?thesis
    proof (cases "k \<in> set v")
      case True
      then show ?thesis using Some Cons.IH[of v] by simp
    next
      case False
      then show ?thesis using Some Cons.IH[of "k # v"] by (auto simp: chave_linha_de)
    qed
  qed
qed

lemma set_aceitas: "set (aceitas amb i rs) \<subseteq> set rs"
proof (induction rs arbitrary: i)
  case Nil
  then show ?case by (simp add: aceitas_Nil)
next
  case (Cons r rs)
  then show ?case by (auto simp: aceitas_Cons)
qed

lemma aceitas_todas:
  "\<forall>j<length rs. query_error amb (i + j) = None \<Longrightarrow> aceitas amb i rs = rs"
proof (induction rs arbitrary: i)
  case Nil
  then show ?case by (simp add: aceitas_Nil)
next
  case (Cons r rs)
  have q0: "query_error amb i = None" using Cons.prems by force
  have "\<forall>j<length rs. query_error amb (Suc i + j) = None" using Cons.prems by force
  then have "aceitas amb (Suc i) rs = rs" by (rule Cons.IH)
  then show ?case using q0 by (simp add: aceitas_Cons)
qed

text \<open>The loop keeps of the batch what the specification says, of the records that the
  database does not reject.\<close>

lemma salvar_loop_exato:
  "snd (salvar_loop amb i rs c b) =
   b\<lparr>reclamacoes := reclamacoes b @
      map linha_de (inseridas_spec (chaves (reclamacoes b)) (aceitas amb i rs))\<rparr>"
proof (induction rs arbitrary: i c b)
  case Nil
  then show ?case by (simp add: aceitas_Nil)
next
  case (Cons r rs)
  show ?case
  proof (cases "query_error amb i")
    case (Some e)
    then show ?thesis
      using Cons.IH by (simp add: salvar_loop_step aceitas_Cons del: salvar_loop.simps)
  next
    case None
    let ?c1 = "c\<lparr>salvos := Suc (salvos c)\<rparr>"
    let ?v = "chaves (reclamacoes b)"
    have step: "snd (salvar_loop amb i (r # rs) c b) =
        snd (salvar_loop amb (Suc i) rs ?c1 (snd (insert_reclamacao b r)))"
      using None by (simp add: salvar_loop_step del: salvar_loop.simps)
    have ac: "aceitas amb i (r # rs) = r # aceitas amb (Suc i) rs"
      using None by (simp add: aceitas_Cons)
    show ?thesis
    proof (cases "conflito (reclamacoes b) r")
      case True
      then obtain k where k: "chave r = Some k" "k \<in> set ?v"
        by (auto simp: conflito_chaves)
      have "snd (insert_reclamacao b r) = b"
        using True by (simp add: insert_reclamacao_linha_de)
      then show ?thesis
        unfolding step ac using k Cons.IH[of "Suc i" ?c1 b] by simp
    next
      case False
      let ?b1 = "b\<lparr>reclamacoes := reclamacoes b @ [linha_de r]\<rparr>"
      have b1: "snd (insert_reclamacao b r) = ?b1"
        using False by (simp add: insert_reclamacao_linha_de)
      have ih: "snd (salvar_loop amb (Suc i) rs ?c1 ?b1) =
          ?b1\<lparr>reclamacoes := reclamacoes ?b1 @
            map linha_de (inseridas_spec (chaves (reclamacoes ?b1)) (aceitas amb (Suc i) rs))\<rparr>"
        by (rule Cons.IH)
      show ?thesis
      proof (cases "chave r")
        case None
        then have "chaves (reclamacoes ?b1) = ?v"
          by (simp add: chaves_append chave_linha_de)
        then show ?thesis
          unfolding step ac b1 ih using None by simp
      next
        case (Some k)
        then have notin: "k \<notin> set ?v"
          using False by (simp add: conflito_chaves)
        have "set (chaves (reclamacoes ?b1)) = set (k # ?v)"
          using Some by (simp add: chaves_append chave_linha_de)
        then have "inseridas_spec (chaves (reclamacoes ?b1)) (aceitas amb (Suc i) rs) =
            inseridas_spec (k # ?v) (aceitas amb (Suc i) rs)"
          by (rule inseridas_spec_cong)
        then show ?thesis
          unfolding step ac b1 ih using Some notin by simp
      qed
    qed
  qed
qed

lemma salvarReclamacoesDB_exato:
  "connect_error amb = None \<Longrightarrow>
   snd (salvarReclamacoesDB amb b rs) =
   b\<lparr>reclamacoes := reclamacoes b @
      map linha_de (inseridas_spec (chaves (reclamacoes b)) (aceitas amb 0 rs))\<rparr>"
  by (simp add: snd_salvarReclamacoesDB salvar_loop_exato)

lemma salvarReclamacoesDB_sem_conexao:
  "connect_error amb \<noteq> None \<Longrightarrow> snd (salvarReclamacoesDB amb b rs) = b"
  by (auto simp: snd_salvarReclamacoesDB)

text \<open>After a batch that the database did not reject, the key of each of its records is
  in the table.\<close>

lemma inseridas_spec_cobre:
  "chave r = Some k \<Longrightarrow> r \<in> set rs \<Longrightarrow>
   k \<in> set v \<union> set (chaves (map linha_de (inseridas_spec v rs)))"
proof (induction rs arbitrary: v)
  case Nil
  then show ?case by simp
next
  case (Cons x xs)
  show ?case
  proof (cases "chave x")
    case None
    then have "r \<in> set xs" using Cons.prems by auto
    then show ?thesis using None Cons.IH[OF Cons.prems(1), of v] by (simp add: chave_linha_de)
  next
    case (Some kx)
    show ?thesis
    proof (cases "kx \<in> set v")
      case True
      show ?thesis
      proof (cases "r = x")
        case True
        then show ?thesis using Some \<open>kx \<in> set v\<close> Cons.prems(1) by simp
      next
        case False
        then have "r \<in> set xs" using Cons.prems by auto
        then show ?thesis using Some True Cons.IH[OF Cons.prems(1), of v] by simp
      qed
    next
      case notin: False
      show ?thesis
      proof (cases "r = x")
        case True
        then show ?thesis using Some notin Cons.prems(1) by (simp add: chave_linha_de)
      next
        case False
        then have "r \<in> set xs" using Cons.prems by auto
        from Cons.IH[OF Cons.prems(1) this, of "kx # v"]
        show ?thesis using Some notin by (auto simp: chave_linha_de)
      qed
    qed
  qed
qed

subsection \<open>Claim C1\<close>

text \<open>
  C1 says that the second of two calls of \<open>salvarReclamacoesDB\<close> with the same batch
  returns inserted = 0 and duplicate = |B|. The code does not: with the empty store and the
  batch of one complaint whose external id is \<open>produto_123\<close>, the first call returns
  salvos = 1 and duplicados = 0, and the second call returns salvos = 1 and duplicados = 0
  again, although the store still holds one row.
\<close>

theorem salvarReclamacoesDB_second_call_counts:
  "fst (salvarReclamacoesDB ambiente_exemplo banco_vazio [reclamacao_exemplo]) =
     Inr \<lparr>salvos = 1, duplicados = 0\<rparr> \<and>
   fst (salvarReclamacoesDB ambiente_exemplo
          (snd (salvarReclamacoesDB ambiente_exemplo banco_vazio [reclamacao_exemplo]))
          [reclamacao_exemplo]) = Inr \<lparr>salvos = 1, duplicados = 0\<rparr> \<and>
   length (reclamacoes (snd (salvarReclamacoesDB ambiente_exemplo
          (snd (salvarReclamacoesDB ambiente_exemplo banco_vazio [reclamacao_exemplo]))
          [reclamacao_exemplo]))) = 1"
  by code_simp

subsection \<open>Claim C2\<close>

text \<open>
  C2, as stated, fails for a record without external id: applied twice, the batch of one
  such complaint leaves a different table the second time (a second row).
\<close>

theorem salvarReclamacoesDB_reapply_counterexample:
  "reclamacoes (snd (salvarReclamacoesDB ambiente_exemplo
      (snd (salvarReclamacoesDB ambiente_exemplo banco_vazio [reclamacao_sem_id]))
      [reclamacao_sem_id])) \<noteq>
   reclamacoes (snd (salvarReclamacoesDB ambiente_exemplo banco_vazio [reclamacao_sem_id])) \<and>
   length (reclamacoes (snd (salvarReclamacoesDB ambiente_exemplo banco_vazio
      [reclamacao_sem_id]))) = 1 \<and>
   length (reclamacoes (snd (salvarReclamacoesDB ambiente_exemplo
      (snd (salvarReclamacoesDB ambiente_exemplo banco_vazio [reclamacao_sem_id]))
      [reclamacao_sem_id]))) = 2"
  by code_simp

text \<open>
  C2, amended. \<open>salvarReclamacoesDB\<close> never changes or removes a stored row, and leaves the
  ledger alone. Of the records that the database does not reject it appends, in order, the
  row of every record without external id and the row of the first record of every key
  (external id, entity) that is not yet in the table; a record whose key is already present
  is skipped, whatever else the batch holds. So the rows appended carry keys that are
  pairwise different and different from the keys stored before. When the keys of the
  records with an external id are all present, the call appends exactly the rows of the
  records without external id. Hence, after a first application that met no storage error,
  applying the same batch again in any order appends no row for a record with an external
  id and one more row for every record without one (of those not rejected the second time);
  a batch whose records all carry an external id leaves the store as it was.
\<close>

theorem salvarReclamacoesDB_reapply:
  "(connect_error amb \<noteq> None \<longrightarrow> snd (salvarReclamacoesDB amb b rs) = b) \<and>
   (connect_error amb = None \<longrightarrow>
    snd (salvarReclamacoesDB amb b rs) =
    b\<lparr>reclamacoes := reclamacoes b @
       map linha_de (inseridas_spec (chaves (reclamacoes b)) (aceitas amb 0 rs))\<rparr>) \<and>
   (\<exists>novas. snd (salvarReclamacoesDB amb b rs) = b\<lparr>reclamacoes := reclamacoes b @ novas\<rparr> \<and>
      distinct (chaves novas) \<and>
      set (chaves novas) \<inter> set (chaves (reclamacoes b)) = {}) \<and>
   ((\<forall>r\<in>set rs. conflito (reclamacoes b) r) \<longrightarrow> snd (salvarReclamacoesDB amb b rs) = b) \<and>
   (connect_error amb = None \<longrightarrow>
    (\<forall>r\<in>set rs. id_reclamacao r \<noteq> None \<longrightarrow> conflito (reclamacoes b) r) \<longrightarrow>
    snd (salvarReclamacoesDB amb b rs) =
    b\<lparr>reclamacoes := reclamacoes b @
       map linha_de [r\<leftarrow>aceitas amb 0 rs. id_reclamacao r = None]\<rparr>) \<and>
   (connect_error amb = None \<longrightarrow>
    (\<forall>i<length rs. query_error amb i = None) \<longrightarrow>
    mset rs' = mset rs \<longrightarrow>
    connect_error amb' = None \<longrightarrow>
    snd (salvarReclamacoesDB amb' (snd (salvarReclamacoesDB amb b rs)) rs') =
    (snd (salvarReclamacoesDB amb b rs))
      \<lparr>reclamacoes := reclamacoes (snd (salvarReclamacoesDB amb b rs)) @
         map linha_de [r\<leftarrow>aceitas amb' 0 rs'. id_reclamacao r = None]\<rparr>) \<and>
   ((\<forall>r\<in>set rs. id_reclamacao r \<noteq> None) \<longrightarrow>
    connect_error amb = None \<longrightarrow>
    (\<forall>i<length rs. query_error amb i = None) \<longrightarrow>
    mset rs' = mset rs \<longrightarrow>
    snd (salvarReclamacoesDB amb' (snd (salvarReclamacoesDB amb b rs)) rs') =
    snd (salvarReclamacoesDB amb b rs))"
proof -
  let ?b1 = "snd (salvarReclamacoesDB amb b rs)"
  have sem: "snd (salvarReclamacoesDB a x ys) = x" if "connect_error a \<noteq> None" for a x ys
    using that by (rule salvarReclamacoesDB_sem_conexao)
  have todos: "snd (salvarReclamacoesDB a x ys) = x"
    if "\<forall>r\<in>set ys. conflito (reclamacoes x) r" for a x ys
    using that salvar_loop_conflitos[of ys x a 0 "\<lparr>salvos = 0, duplicados = 0\<rparr>"]
    by (simp add: snd_salvarReclamacoesDB split: option.splits)
  have so_sem_id: "snd (salvarReclamacoesDB a x ys) =
      x\<lparr>reclamacoes := reclamacoes x @
         map linha_de [r\<leftarrow>aceitas a 0 ys. id_reclamacao r = None]\<rparr>"
    if ce: "connect_error a = None"
      and cf: "\<forall>r\<in>set ys. id_reclamacao r \<noteq> None \<longrightarrow> conflito (reclamacoes x) r"
    for a x ys
  proof -
    have "\<forall>r\<in>set (aceitas a 0 ys). \<forall>k. chave r = Some k \<longrightarrow> k \<in> set (chaves (reclamacoes x))"
    proof (intro ballI allI impI)
      fix r k
      assume r: "r \<in> set (aceitas a 0 ys)" and k: "chave r = Some k"
      have "r \<in> set ys" using r set_aceitas by blast
      moreover have "id_reclamacao r \<noteq> None"
        using k by (simp add: chave_None_iff[symmetric])
      ultimately have "conflito (reclamacoes x) r" using cf by simp
      then show "k \<in> set (chaves (reclamacoes x))"
        using k by (simp add: conflito_chaves)
    qed
    then have "inseridas_spec (chaves (reclamacoes x)) (aceitas a 0 ys) =
        [r\<leftarrow>aceitas a 0 ys. id_reclamacao r = None]"
      by (rule inseridas_spec_vistas)
    then show ?thesis
      using salvarReclamacoesDB_exato[OF ce, of x ys] by simp
  qed
  have presentes: "\<forall>r\<in>set rs'. id_reclamacao r \<noteq> None \<longrightarrow> conflito (reclamacoes ?b1) r"
    if ce: "connect_error amb = None"
      and qe: "\<forall>i<length rs. query_error amb i = None"
      and perm: "mset rs' = mset rs"
  proof (intro ballI impI)
    fix r
    assume r: "r \<in> set rs'" and i: "id_reclamacao r \<noteq> None"
    have "set rs' = set rs" using perm by (rule mset_eq_setD)
    then have rin: "r \<in> set rs" using r by simp
    obtain k where k: "chave r = Some k"
      using i by (cases "chave r") (simp_all add: chave_None_iff)
    have "aceitas amb 0 rs = rs"
      using qe by (intro aceitas_todas) simp
    then have b1: "reclamacoes ?b1 =
        reclamacoes b @ map linha_de (inseridas_spec (chaves (reclamacoes b)) rs)"
      using salvarReclamacoesDB_exato[OF ce, of b rs] by simp
    have "k \<in> set (chaves (reclamacoes ?b1))"
      unfolding b1 chaves_append using inseridas_spec_cobre[OF k rin] by simp
    then show "conflito (reclamacoes ?b1) r"
      using k by (simp add: conflito_chaves)
  qed
  have novas: "\<exists>novas. ?b1 = b\<lparr>reclamacoes := reclamacoes b @ novas\<rparr> \<and>
      distinct (chaves novas) \<and>
      set (chaves novas) \<inter> set (chaves (reclamacoes b)) = {}"
  proof (cases "connect_error amb")
    case None
    let ?n = "map linha_de (inseridas_spec (chaves (reclamacoes b)) (aceitas amb 0 rs))"
    have "?b1 = b\<lparr>reclamacoes := reclamacoes b @ ?n\<rparr>"
      using None by (rule salvarReclamacoesDB_exato)
    moreover have "distinct (chaves ?n) \<and> set (chaves ?n) \<inter> set (chaves (reclamacoes b)) = {}"
      by (rule inseridas_spec_chaves)
    ultimately show ?thesis by blast
  next
    case (Some e)
    then have "?b1 = b\<lparr>reclamacoes := reclamacoes b @ []\<rparr>"
      using sem[of amb b rs] by simp
    moreover have "distinct (chaves []) \<and> set (chaves []) \<inter> set (chaves (reclamacoes b)) = {}"
      by simp
    ultimately show ?thesis by blast
  qed
  have de_novo: "snd (salvarReclamacoesDB amb' ?b1 rs') = ?b1"
    if ids: "\<forall>r\<in>set rs. id_reclamacao r \<noteq> None"
      and ce: "connect_error amb = None"
      and qe: "\<forall>i<length rs. query_error amb i = None"
      and perm: "mset rs' = mset rs"
  proof -
    have "set rs' = set rs" using perm by (rule mset_eq_setD)
    then have "\<forall>r\<in>set rs'. conflito (reclamacoes ?b1) r"
      using presentes[OF ce qe perm] ids by simp
    then show ?thesis by (rule todos)
  qed
  show ?thesis
    using sem[of amb b rs] salvarReclamacoesDB_exato[of amb b rs] novas todos[of rs b amb]
      so_sem_id[of amb rs b] so_sem_id[of amb' rs' ?b1] presentes de_novo
    by (intro conjI impI) simp_all
qed

theorem salvarReclamacoesDB_reapply_witness:
  "snd (salvarReclamacoesDB ambiente_sem_conexao banco_exemplo [reclamacao_nova]) = banco_exemplo \<and>
   reclamacoes (snd (salvarReclamacoesDB ambiente_exemplo banco_exemplo
      [reclamacao_outra, reclamacao_nova, reclamacao_sem_id])) =
     reclamacoes banco_exemplo @ [linha_de reclamacao_nova, linha_de reclamacao_sem_id] \<and>
   reclamacoes (snd (salvarReclamacoesDB ambiente_exemplo banco_exemplo
      [reclamacao_outra, reclamacao_sem_id])) =
     reclamacoes banco_exemplo @ [linha_de reclamacao_sem_id] \<and>
   reclamacoes (snd (salvarReclamacoesDB ambiente_exemplo
      (snd (salvarReclamacoesDB ambiente_exemplo banco_vazio [reclamacao_exemplo, reclamacao_sem_id]))
      [reclamacao_sem_id, reclamacao_exemplo])) =
     reclamacoes (snd (salvarReclamacoesDB ambiente_exemplo banco_vazio
       [reclamacao_exemplo, reclamacao_sem_id])) @ [linha_de reclamacao_sem_id] \<and>
   snd (salvarReclamacoesDB ambiente_rejeita
      (snd (salvarReclamacoesDB ambiente_exemplo banco_vazio [reclamacao_exemplo, reclamacao_outra]))
      [reclamacao_outra, reclamacao_exemplo]) =
   snd (salvarReclamacoesDB ambiente_exemplo banco_vazio [reclamacao_exemplo, reclamacao_outra]) \<and>
   conflito (reclamacoes banco_exemplo) reclamacao_outra \<and>
   snd (salvarReclamacoesDB ambiente_exemplo banco_exemplo [reclamacao_outra]) = banco_exemplo"
proof -
  have c0: "connect_error ambiente_sem_conexao \<noteq> None"
    by (simp add: ambiente_sem_conexao_def)
  have c1: "connect_error ambiente_exemplo = None"
    by (simp add: ambiente_exemplo_def)
  have q1: "\<forall>i<length ys. query_error ambiente_exemplo i = None" for ys :: "reclamacao list"
    by (simp add: ambiente_exemplo_def)
  note t1 = salvarReclamacoesDB_reapply[where amb = ambiente_sem_conexao and b = banco_exemplo
      and rs = "[reclamacao_nova]" and rs' = "[]" and amb' = ambiente_exemplo]
  have w1: "snd (salvarReclamacoesDB ambiente_sem_conexao banco_exemplo [reclamacao_nova]) =
      banco_exemplo"
    by (rule t1[THEN conjunct1, THEN mp, OF c0])
  note t2 = salvarReclamacoesDB_reapply[where amb = ambiente_exemplo and b = banco_exemplo
      and rs = "[reclamacao_outra, reclamacao_nova, reclamacao_sem_id]" and rs' = "[]"
      and amb' = ambiente_exemplo]
  have e2: "inseridas_spec (chaves (reclamacoes banco_exemplo))
      (aceitas ambiente_exemplo 0 [reclamacao_outra, reclamacao_nova, reclamacao_sem_id]) =
      [reclamacao_nova, reclamacao_sem_id]"
    by code_simp
  have w2: "reclamacoes (snd (salvarReclamacoesDB ambiente_exemplo banco_exemplo
      [reclamacao_outra, reclamacao_nova, reclamacao_sem_id])) =
     reclamacoes banco_exemplo @ [linha_de reclamacao_nova, linha_de reclamacao_sem_id]"
    unfolding t2[THEN conjunct2, THEN conjunct1, THEN mp, OF c1] e2 by simp
  have h3: "\<forall>r\<in>set [reclamacao_outra, reclamacao_sem_id].
      id_reclamacao r \<noteq> None \<longrightarrow> conflito (reclamacoes banco_exemplo) r"
  proof -
    have "conflito (reclamacoes banco_exemplo) reclamacao_outra" by code_simp
    moreover have "id_reclamacao reclamacao_sem_id = None"
      by (simp add: reclamacao_sem_id_def)
    ultimately show ?thesis by simp
  qed
  note t3 = salvarReclamacoesDB_reapply[where amb = ambiente_exemplo and b = banco_exemplo
      and rs = "[reclamacao_outra, reclamacao_sem_id]" and rs' = "[]" and amb' = ambiente_exemplo]
  have e3: "[r\<leftarrow>aceitas ambiente_exemplo 0 [reclamacao_outra, reclamacao_sem_id].
      id_reclamacao r = None] = [reclamacao_sem_id]"
    by code_simp
  have w3: "reclamacoes (snd (salvarReclamacoesDB ambiente_exemplo banco_exemplo
      [reclamacao_outra, reclamacao_sem_id])) =
     reclamacoes banco_exemplo @ [linha_de reclamacao_sem_id]"
    unfolding t3[THEN conjunct2, THEN conjunct2, THEN conjunct2, THEN conjunct2, THEN conjunct1,
        THEN mp, OF c1, THEN mp, OF h3] e3
    by simp
  have p4: "mset [reclamacao_sem_id, reclamacao_exemplo] = mset [reclamacao_exemplo, reclamacao_sem_id]"
    by simp
  note t4 = salvarReclamacoesDB_reapply[where amb = ambiente_exemplo and b = banco_vazio
      and rs = "[reclamacao_exemplo, reclamacao_sem_id]"
      and rs' = "[reclamacao_sem_id, reclamacao_exemplo]" and amb' = ambiente_exemplo]
  have e4: "[r\<leftarrow>aceitas ambiente_exemplo 0 [reclamacao_sem_id, reclamacao_exemplo].
      id_reclamacao r = None] = [reclamacao_sem_id]"
    by code_simp
  have w4: "reclamacoes (snd (salvarReclamacoesDB ambiente_exemplo
      (snd (salvarReclamacoesDB ambiente_exemplo banco_vazio [reclamacao_exemplo, reclamacao_sem_id]))
      [reclamacao_sem_id, reclamacao_exemplo])) =
     reclamacoes (snd (salvarReclamacoesDB ambiente_exemplo banco_vazio
       [reclamacao_exemplo, reclamacao_sem_id])) @ [linha_de reclamacao_sem_id]"
    unfolding t4[THEN conjunct2, THEN conjunct2, THEN conjunct2, THEN conjunct2, THEN conjunct2,
        THEN conjunct1, THEN mp, OF c1, THEN mp, OF q1, THEN mp, OF p4, THEN mp, OF c1] e4
    by simp
  have h5: "\<forall>r\<in>set [reclamacao_exemplo, reclamacao_outra]. id_reclamacao r \<noteq> None"
    by (simp add: reclamacao_exemplo_def reclamacao_outra_def)
  have p5: "mset [reclamacao_outra, reclamacao_exemplo] = mset [reclamacao_exemplo, reclamacao_outra]"
    by simp
  note t5 = salvarReclamacoesDB_reapply[where amb = ambiente_exemplo and b = banco_vazio
      and rs = "[reclamacao_exemplo, reclamacao_outra]"
      and rs' = "[reclamacao_outra, reclamacao_exemplo]" and amb' = ambiente_rejeita]
  have w5: "snd (salvarReclamacoesDB ambiente_rejeita
      (snd (salvarReclamacoesDB ambiente_exemplo banco_vazio [reclamacao_exemplo, reclamacao_outra]))
      [reclamacao_outra, reclamacao_exemplo]) =
    snd (salvarReclamacoesDB ambiente_exemplo banco_vazio [reclamacao_exemplo, reclamacao_outra])"
    by (rule t5[THEN conjunct2, THEN conjunct2, THEN conjunct2, THEN conjunct2, THEN conjunct2,
        THEN conjunct2, THEN mp, OF h5, THEN mp, OF c1, THEN mp, OF q1, THEN mp, OF p5])
  have h6: "conflito (reclamacoes banco_exemplo) reclamacao_outra"
    by code_simp
  then have h6': "\<forall>r\<in>set [reclamacao_outra]. conflito (reclamacoes banco_exemplo) r"
    by simp
  note t6 = salvarReclamacoesDB_reapply[where amb = ambiente_exemplo and b = banco_exemplo
      and rs = "[reclamacao_outra]" and rs' = "[]" and amb' = ambiente_exemplo]
  have w6: "snd (salvarReclamacoesDB ambiente_exemplo banco_exemplo [reclamacao_outra]) =
    banco_exemplo"
    by (rule t6[THEN conjunct2, THEN conjunct2, THEN conjunct2, THEN conjunct1, THEN mp, OF h6'])
  show ?thesis
    using w1 w2 w3 w4 w5 h6 w6 by (simp only: simp_thms)
qed

subsection \<open>Claim C10\<close>

text \<open>
  C10: once the connection is there, \<open>salvarReclamacoesDB\<close> returns its counts whatever
  the database rejects. The saved count is the number of queries that were not rejected, the
  duplicate count the number of rejections with code 23505; a record rejected with any other
  error is in neither count. The store ends as if the batch had held only the records that
  were not rejected: every one of them has been attempted.
\<close>

theorem salvarReclamacoesDB_other_errors:
  assumes "connect_error amb = None"
  shows "\<exists>c b'. salvarReclamacoesDB amb b rs = (Inr c, b') \<and>
           salvos c = length [i\<leftarrow>[0..<length rs]. query_error amb i = None] \<and>
           duplicados c = length [i\<leftarrow>[0..<length rs]. codigo_rejeicao amb i = Some ''23505''] \<and>
           salvos c + duplicados c +
             length [i\<leftarrow>[0..<length rs]. query_error amb i \<noteq> None \<and>
                                          codigo_rejeicao amb i \<noteq> Some ''23505''] = length rs \<and>
           b' = snd (salvarReclamacoesDB (sem_rejeicoes amb) b (aceitas amb 0 rs))"
proof -
  let ?c = "fst (salvar_loop amb 0 rs \<lparr>salvos = 0, duplicados = 0\<rparr> b)"
  let ?b' = "snd (salvar_loop amb 0 rs \<lparr>salvos = 0, duplicados = 0\<rparr> b)"
  have ce: "connect_error (sem_rejeicoes amb) = None"
    using assms by (simp add: sem_rejeicoes_def)
  have res: "salvarReclamacoesDB amb b rs = (Inr ?c, ?b')"
    using assms by (simp add: salvarReclamacoesDB_def split: prod.splits)
  have s: "salvos ?c = length [i\<leftarrow>[0..<length rs]. query_error amb i = None]"
    and d: "duplicados ?c = length [i\<leftarrow>[0..<length rs]. codigo_rejeicao amb i = Some ''23505'']"
    by (simp_all add: salvar_loop_contagem)
  have dup: "[i\<leftarrow>[0..<length rs]. codigo_rejeicao amb i = Some ''23505''] =
             [i\<leftarrow>[0..<length rs]. \<not> query_error amb i = None \<and> codigo_rejeicao amb i = Some ''23505'']"
    by (rule filter_cong) (auto simp: codigo_rejeicao_def split: option.splits)
  have total: "salvos ?c + duplicados ?c +
      length [i\<leftarrow>[0..<length rs]. query_error amb i \<noteq> None \<and>
                                   codigo_rejeicao amb i \<noteq> Some ''23505''] = length rs"
    unfolding s d
    using filter_three[of "\<lambda>i. query_error amb i = None" "[0..<length rs]"
        "\<lambda>i. codigo_rejeicao amb i = Some ''23505''"] dup
    by simp
  have st: "?b' = snd (salvarReclamacoesDB (sem_rejeicoes amb) b (aceitas amb 0 rs))"
    using ce salvar_loop_aceitas[of amb 0 rs "\<lparr>salvos = 0, duplicados = 0\<rparr>" b 0 "\<lparr>salvos = 0, duplicados = 0\<rparr>"]
    by (simp add: snd_salvarReclamacoesDB)
  show ?thesis
    using res s d total st by blast
qed

theorem salvarReclamacoesDB_other_errors_witness:
  "connect_error ambiente_rejeita = None \<and>
   query_error ambiente_rejeita 1 = Some erro_22001 \<and>
   fst (salvarReclamacoesDB ambiente_rejeita banco_vazio
          [reclamacao_exemplo, reclamacao_outra, reclamacao_sem_id]) =
     Inr \<lparr>salvos = 2, duplicados = 0\<rparr> \<and>
   snd (salvarReclamacoesDB ambiente_rejeita banco_vazio
          [reclamacao_exemplo, reclamacao_outra, reclamacao_sem_id]) =
   snd (salvarReclamacoesDB (sem_rejeicoes ambiente_rejeita) banco_vazio
          [reclamacao_exemplo, reclamacao_sem_id])"
proof -
  have h: "connect_error ambiente_rejeita = None"
    by (simp add: ambiente_rejeita_def ambiente_exemplo_def)
  have q: "query_error ambiente_rejeita 1 = Some erro_22001"
    by (simp add: ambiente_rejeita_def)
  have a: "aceitas ambiente_rejeita 0 [reclamacao_exemplo, reclamacao_outra, reclamacao_sem_id] =
           [reclamacao_exemplo, reclamacao_sem_id]"
    by (simp add: aceitas_Cons aceitas_Nil ambiente_rejeita_def)
  have n: "length [i\<leftarrow>[0..<length [reclamacao_exemplo, reclamacao_outra, reclamacao_sem_id]].
             query_error ambiente_rejeita i = None] = 2"
    by (simp add: ambiente_rejeita_def upt_rec)
  have m: "length [i\<leftarrow>[0..<length [reclamacao_exemplo, reclamacao_outra, reclamacao_sem_id]].
             codigo_rejeicao ambiente_rejeita i = Some ''23505''] = 0"
    by (simp add: ambiente_rejeita_def upt_rec codigo_rejeicao_def erro_22001_def)
  obtain c b' where r: "salvarReclamacoesDB ambiente_rejeita banco_vazio
          [reclamacao_exemplo, reclamacao_outra, reclamacao_sem_id] = (Inr c, b')"
    and sc: "salvos c = 2" and dc: "duplicados c = 0"
    and bb: "b' = snd (salvarReclamacoesDB (sem_rejeicoes ambiente_rejeita) banco_vazio
          [reclamacao_exemplo, reclamacao_sem_id])"
    using salvarReclamacoesDB_other_errors[OF h, of banco_vazio
        "[reclamacao_exemplo, reclamacao_outra, reclamacao_sem_id]"]
    unfolding a n m by blast
  have "c = \<lparr>salvos = 2, duplicados = 0\<rparr>"
    using sc dc by simp
  then show ?thesis using h q r bb by simp
qed

section \<open>Stored complaints of a company\<close>

lemma order_by_sorted:
  "sorted_wrt (\<lambda>x y. col_coletado_em x \<ge> col_coletado_em y) (order_by_coletado_em_desc rows)"
proof -
  have "sorted (map col_coletado_em (sort_key col_coletado_em rows))"
    by (rule sorted_sort_key)
  then have "sorted_wrt (\<lambda>x y. col_coletado_em x \<le> col_coletado_em y)
      (sort_key col_coletado_em rows)"
    by (simp only: sorted_map)
  then show ?thesis
    unfolding order_by_coletado_em_desc_def by (simp only: sorted_wrt_rev)
qed

lemma order_by_set: "set (order_by_coletado_em_desc rows) = set rows"
  by (simp add: order_by_coletado_em_desc_def)

subsection \<open>Claim C9\<close>

text \<open>
  C9: whenever \<open>buscarReclamacoesDB\<close> returns rows for a company and a limit, there are at
  most as many rows as the limit, every row is a stored row of that company, and the rows
  are in descending order of their collection time stamp. It does return rows when the
  database answers and the limit is not negative. A limit left out is 50, in the function
  and in the route \<open>GET /api/reclamacoes/:empresa\<close>.
\<close>

theorem buscarReclamacoesDB_limit_order:
  "(\<forall>rows. buscarReclamacoesDB amb b nome limite = Inr rows \<longrightarrow>
      int (length rows) \<le> (case limite of None \<Rightarrow> 50 | Some n \<Rightarrow> n) \<and>
      (\<forall>l\<in>set rows. col_empresa l = nome \<and> l \<in> set (reclamacoes b)) \<and>
      sorted_wrt (\<lambda>x y. col_coletado_em x \<ge> col_coletado_em y) rows) \<and>
   (connect_error amb = None \<longrightarrow> query_error amb 0 = None \<longrightarrow>
      0 \<le> (case limite of None \<Rightarrow> 50 | Some n \<Rightarrow> n) \<longrightarrow>
      (\<exists>rows. buscarReclamacoesDB amb b nome limite = Inr rows)) \<and>
   buscarReclamacoesDB amb b nome None = buscarReclamacoesDB amb b nome (Some 50) \<and>
   get_reclamacoes amb s nome None =
     (case buscarReclamacoesDB amb (banco_dados s) nome (Some 50) of
        Inl erro \<Rightarrow> Inl (message erro) | Inr rows \<Rightarrow> Inr rows)"
proof (intro conjI allI impI)
  fix rows
  assume r: "buscarReclamacoesDB amb b nome limite = Inr rows"
  let ?n = "case limite of None \<Rightarrow> 50 | Some n \<Rightarrow> n"
  let ?all = "order_by_coletado_em_desc (filter (\<lambda>l. col_empresa l = nome) (reclamacoes b))"
  have nonneg: "0 \<le> ?n" and rows: "rows = take (nat ?n) ?all"
    using r by (auto simp: buscarReclamacoesDB_def Let_def split: option.splits if_splits)
  show "int (length rows) \<le> ?n"
    using nonneg rows by simp
  show "\<forall>l\<in>set rows. col_empresa l = nome \<and> l \<in> set (reclamacoes b)"
  proof
    fix l assume "l \<in> set rows"
    then have "l \<in> set ?all" unfolding rows by (rule in_set_takeD)
    then show "col_empresa l = nome \<and> l \<in> set (reclamacoes b)"
      by (simp add: order_by_set)
  qed
  show "sorted_wrt (\<lambda>x y. col_coletado_em x \<ge> col_coletado_em y) rows"
    unfolding rows by (intro sorted_wrt_take order_by_sorted)
next
  assume "connect_error amb = None" "query_error amb 0 = None"
    "0 \<le> (case limite of None \<Rightarrow> 50 | Some n \<Rightarrow> n)"
  then show "\<exists>rows. buscarReclamacoesDB amb b nome limite = Inr rows"
    by (simp add: buscarReclamacoesDB_def Let_def)
next
  show "buscarReclamacoesDB amb b nome None = buscarReclamacoesDB amb b nome (Some 50)"
    by (simp add: buscarReclamacoesDB_def)
next
  show "get_reclamacoes amb s nome None =
     (case buscarReclamacoesDB amb (banco_dados s) nome (Some 50) of
        Inl erro \<Rightarrow> Inl (message erro) | Inr rows \<Rightarrow> Inr rows)"
    by (simp add: get_reclamacoes_def)
qed

theorem buscarReclamacoesDB_limit_order_witness:
  "connect_error ambiente_exemplo = None \<and> query_error ambiente_exemplo 0 = None \<and>
   (\<exists>rows. buscarReclamacoesDB ambiente_exemplo banco_exemplo ''Acme'' (Some 2) = Inr rows \<and>
      int (length rows) \<le> 2 \<and>
      sorted_wrt (\<lambda>x y. col_coletado_em x \<ge> col_coletado_em y) rows \<and>
      map col_id_externo rows = [Some ''x_456'', None])"
proof -
  have h1: "connect_error ambiente_exemplo = None" and h2: "query_error ambiente_exemplo 0 = None"
    by (simp_all add: ambiente_exemplo_def)
  note t = buscarReclamacoesDB_limit_order[where amb = ambiente_exemplo and b = banco_exemplo
      and nome = "''Acme''" and limite = "Some 2" and s = sistema_inicial]
  have "\<exists>rows. buscarReclamacoesDB ambiente_exemplo banco_exemplo ''Acme'' (Some 2) = Inr rows"
    using t h1 h2 by simp
  then obtain rows where
    r: "buscarReclamacoesDB ambiente_exemplo banco_exemplo ''Acme'' (Some 2) = Inr rows"
    by blast
  have p: "int (length rows) \<le> 2"
    "sorted_wrt (\<lambda>x y. col_coletado_em x \<ge> col_coletado_em y) rows"
    using t r by simp_all
  have "map col_id_externo
          (case buscarReclamacoesDB ambiente_exemplo banco_exemplo ''Acme'' (Some 2) of
             Inr rows \<Rightarrow> rows | Inl e \<Rightarrow> []) = [Some ''x_456'', None]"
    by code_simp
  then have m: "map col_id_externo rows = [Some ''x_456'', None]"
    using r by simp
  have "\<exists>rows. buscarReclamacoesDB ambiente_exemplo banco_exemplo ''Acme'' (Some 2) = Inr rows \<and>
      int (length rows) \<le> 2 \<and>
      sorted_wrt (\<lambda>x y. col_coletado_em x \<ge> col_coletado_em y) rows \<and>
      map col_id_externo rows = [Some ''x_456'', None]" (is "\<exists>rows. ?P rows")
  proof
    show "?P rows" using r p m by simp
  qed
  then show ?thesis
    using h1 h2 by simp
qed

section \<open>The fetch and the extraction\<close>

lemma dropWhile_snoc_keep:
  "\<not> P x \<Longrightarrow> \<exists>ys. dropWhile P (xs @ [x]) = ys @ [x]"
  by (auto simp: dropWhile_append)

lemma dropWhile_rev_fixed:
  assumes "dropWhile P u = u"
  shows "dropWhile P (rev (dropWhile P (rev u))) = rev (dropWhile P (rev u))"
proof (cases u)
  case Nil
  then show ?thesis by simp
next
  case (Cons x xs)
  have nx: "\<not> P x"
    using assms Cons hd_dropWhile[of P u] by auto
  obtain ys where "dropWhile P (rev xs @ [x]) = ys @ [x]"
    using nx dropWhile_snoc_keep[of P x "rev xs"] by blast
  then show ?thesis
    using nx Cons by simp
qed

lemma trim_idem: "trim (trim s) = trim s"
proof -
  let ?u = "dropWhile is_space s"
  have 1: "dropWhile is_space (trim s) = trim s"
    unfolding trim_def by (rule dropWhile_rev_fixed) simp
  show ?thesis
    unfolding trim_def[of "trim s"] 1
    by (simp add: trim_def)
qed

lemma each_cartao_rel:
  "list_all2 (extraida_de amb nome) vistos acc \<Longrightarrow>
   list_all2 (extraida_de amb nome)
     (vistos @ filter (\<lambda>c. trim (texto_titulo c) \<noteq> []) (take (MAX_RECLAMACOES - index) cs))
     (each_cartao amb nome index n cs acc)"
proof (induction cs arbitrary: index n acc vistos)
  case Nil
  then show ?case by simp
next
  case (Cons c cs)
  show ?case
  proof (cases "index \<ge> MAX_RECLAMACOES")
    case True
    then show ?thesis using Cons.prems by simp
  next
    case False
    then have k: "MAX_RECLAMACOES - index = Suc (MAX_RECLAMACOES - Suc index)"
      by simp
    show ?thesis
    proof (cases "trim (texto_titulo c) = []")
      case True
      then show ?thesis
        using False Cons.IH[OF Cons.prems, of "Suc index" n]
        unfolding k by (simp add: Let_def)
    next
      case nonblank: False
      let ?n1 = "if trim (texto_data c) \<noteq> [] then n else Suc n"
      let ?r = "\<lparr>id_reclamacao = extrair_id (href c),
                 titulo = trim (texto_titulo c),
                 descricao = str_or (trim (texto_descricao c)) Sem_descricao,
                 status = str_or (trim (texto_status c)) Nao_informado,
                 data = (if trim (texto_data c) \<noteq> [] then trim (texto_data c) else clock amb n),
                 local = str_or (trim (texto_local c)) Nao_informado,
                 empresa = nome,
                 link = (case extrair_id (href c) of None \<Rightarrow> None
                         | Some v \<Rightarrow> Some (BASE_URL @ ''/reclamacao/'' @ v)),
                 coletadoEm = clock amb ?n1\<rparr>"
      have r: "extraida_de amb nome c ?r"
        by (auto simp: extraida_de_def str_or_def)
      have "list_all2 (extraida_de amb nome) (vistos @ [c]) (acc @ [?r])"
        using Cons.prems r by (simp add: list_all2_appendI)
      from Cons.IH[OF this, of "Suc index" "Suc ?n1"]
      show ?thesis
        using False nonblank unfolding k by (simp add: Let_def)
    qed
  qed
qed

lemma each_cartao_take:
  "each_cartao amb nome index n cs acc =
   each_cartao amb nome index n (take (MAX_RECLAMACOES - index) cs) acc"
proof (induction cs arbitrary: index n acc)
  case Nil
  then show ?case by simp
next
  case (Cons c cs)
  show ?case
  proof (cases "index \<ge> MAX_RECLAMACOES")
    case True
    then show ?thesis by simp
  next
    case False
    then have k: "MAX_RECLAMACOES - index = Suc (MAX_RECLAMACOES - Suc index)"
      by simp
    show ?thesis
      unfolding k using False Cons.IH[of "Suc index"]
      by (simp add: Let_def)
  qed
qed

lemma list_all2_imp_list_all:
  "list_all2 R xs ys \<Longrightarrow> (\<And>x y. x \<in> set xs \<Longrightarrow> R x y \<Longrightarrow> Q y) \<Longrightarrow> list_all Q ys"
  by (induction rule: list_all2_induct) auto

subsection \<open>Claim C4\<close>

text \<open>
  C4: for every document that the request returns, \<open>buscarReclamacoes\<close> returns complaints
  whose titles are not empty after trimming. They are, in order, the complaints extracted
  from the cards with a title that is not empty after trimming, among the first 20 cards:
  a card with an empty trimmed title gives no complaint whatever its other texts, and a kept
  complaint has the default of each text that is empty (for the date, a reading of the
  clock made while the complaint is built).
\<close>

theorem buscarReclamacoes_titles:
  assumes "axios_get amb (urlBusca nome) = Resolved doc"
  shows "\<exists>rs. buscarReclamacoes amb nome = Inr rs \<and>
           list_all (\<lambda>r. trim (titulo r) \<noteq> []) rs \<and>
           list_all2 (extraida_de amb nome)
             (filter (\<lambda>c. trim (texto_titulo c) \<noteq> []) (take MAX_RECLAMACOES doc)) rs"
proof -
  let ?rs = "each_cartao amb nome 0 0 doc []"
  let ?kept = "filter (\<lambda>c. trim (texto_titulo c) \<noteq> []) (take MAX_RECLAMACOES doc)"
  have res: "buscarReclamacoes amb nome = Inr ?rs"
    using assms by (simp add: buscarReclamacoes_def)
  have rel: "list_all2 (extraida_de amb nome) ?kept ?rs"
    using each_cartao_rel[of amb nome "[]" "[]" 0 doc 0] by simp
  have "trim (titulo r) \<noteq> []" if "c \<in> set ?kept" and "extraida_de amb nome c r" for c r
  proof -
    have "titulo r = trim (texto_titulo c)" and "trim (texto_titulo c) \<noteq> []"
      using that by (auto simp: extraida_de_def)
    then show ?thesis by (simp add: trim_idem)
  qed
  with rel have "list_all (\<lambda>r. trim (titulo r) \<noteq> []) ?rs"
    by (rule list_all2_imp_list_all)
  with res rel show ?thesis by blast
qed

theorem buscarReclamacoes_titles_witness:
  "axios_get ambiente_exemplo (urlBusca ''Acme'') = Resolved documento_exemplo \<and>
   (\<exists>rs. buscarReclamacoes ambiente_exemplo ''Acme'' = Inr rs \<and>
      list_all (\<lambda>r. trim (titulo r) \<noteq> []) rs \<and>
      map titulo rs = [''Produto com defeito''] \<and>
      map descricao rs = [Sem_descricao] \<and>
      map local rs = [Nao_informado] \<and>
      map data rs = [''2026-01-01T10:00:00.000Z''])"
proof -
  have h: "axios_get ambiente_exemplo (urlBusca ''Acme'') = Resolved documento_exemplo"
    by (simp add: ambiente_exemplo_def)
  obtain rs where r: "buscarReclamacoes ambiente_exemplo ''Acme'' = Inr rs"
    and t: "list_all (\<lambda>r. trim (titulo r) \<noteq> []) rs"
    using buscarReclamacoes_titles[OF h] by blast
  let ?rs = "case buscarReclamacoes ambiente_exemplo ''Acme'' of Inr rs \<Rightarrow> rs | Inl e \<Rightarrow> []"
  have "map titulo ?rs = [''Produto com defeito'']" and "map descricao ?rs = [Sem_descricao]"
    and "map local ?rs = [Nao_informado]" and "map data ?rs = [''2026-01-01T10:00:00.000Z'']"
    by code_simp+
  then show ?thesis
    using h r t by simp
qed

subsection \<open>Claim C8\<close>

text \<open>
  C8: whatever the document, \<open>buscarReclamacoes\<close> returns at most 20 complaints, and the
  cards after the twentieth are not looked at: the result is that of the document cut after
  its first 20 cards.
\<close>

theorem buscarReclamacoes_at_most_20:
  assumes "buscarReclamacoes amb nome = Inr rs"
  shows "length rs \<le> 20 \<and>
         MAX_RECLAMACOES = 20 \<and>
         (\<exists>doc. axios_get amb (urlBusca nome) = Resolved doc \<and>
                rs = each_cartao amb nome 0 0 (take 20 doc) [])"
proof -
  obtain doc where doc: "axios_get amb (urlBusca nome) = Resolved doc"
    and rs: "rs = each_cartao amb nome 0 0 doc []"
    using assms
    by (auto simp: buscarReclamacoes_def split: axios_result.splits option.splits if_splits)
  have m: "MAX_RECLAMACOES = 20"
    by (simp add: MAX_RECLAMACOES_def)
  have cut: "rs = each_cartao amb nome 0 0 (take 20 doc) []"
    unfolding rs using each_cartao_take[of amb nome 0 0 doc "[]"] by (simp add: m)
  have "list_all2 (extraida_de amb nome)
          (filter (\<lambda>c. trim (texto_titulo c) \<noteq> []) (take MAX_RECLAMACOES doc)) rs"
    unfolding rs using each_cartao_rel[of amb nome "[]" "[]" 0 doc 0] by simp
  then have "length rs = length (filter (\<lambda>c. trim (texto_titulo c) \<noteq> []) (take MAX_RECLAMACOES doc))"
    by (simp add: list_all2_lengthD)
  also have "\<dots> \<le> length (take MAX_RECLAMACOES doc)"
    by (rule length_filter_le)
  also have "\<dots> \<le> 20"
    by (simp add: m)
  finally have "length rs \<le> 20" .
  with m doc cut show ?thesis by blast
qed

theorem buscarReclamacoes_at_most_20_witness:
  "\<exists>rs. buscarReclamacoes (ambiente_http (Resolved (replicate 25 cartao_exemplo))) ''Acme'' = Inr rs \<and>
      length rs \<le> 20 \<and> length rs = 20"
proof -
  let ?amb = "ambiente_http (Resolved (replicate 25 cartao_exemplo))"
  have "axios_get ?amb (urlBusca ''Acme'') = Resolved (replicate 25 cartao_exemplo)"
    by (simp add: ambiente_http_def)
  then obtain rs where r: "buscarReclamacoes ?amb ''Acme'' = Inr rs"
    by (simp add: buscarReclamacoes_def)
  have le: "length rs \<le> 20"
    using buscarReclamacoes_at_most_20[OF r] by blast
  have "length (case buscarReclamacoes ?amb ''Acme'' of Inr rs \<Rightarrow> rs | Inl e \<Rightarrow> []) = 20"
    by code_simp
  then have "length rs = 20"
    using r by simp
  with r le show ?thesis by blast
qed

subsection \<open>Claim C5\<close>

text \<open>
  C5: when the request is rejected with a response of status 404, \<open>buscarReclamacoes\<close>
  fails with the not-found error; with status 403, with the blocked error; without a
  response although the request was sent, with the no-response error; with a response of
  any other status, or with neither response nor request, it fails with the error of the
  request itself, which carries the status. When the request succeeds and the selector finds
  no card, it returns the empty sequence.
\<close>

theorem buscarReclamacoes_errors:
  "(axios_get amb (urlBusca nome) = Rejected e \<longrightarrow> response e = Some 404 \<longrightarrow>
      buscarReclamacoes amb nome = Inl (Error Empresa_nao_encontrada)) \<and>
   (axios_get amb (urlBusca nome) = Rejected e \<longrightarrow> response e = Some 403 \<longrightarrow>
      buscarReclamacoes amb nome = Inl (Error Acesso_bloqueado)) \<and>
   (axios_get amb (urlBusca nome) = Rejected e \<longrightarrow> response e = None \<longrightarrow> request e \<longrightarrow>
      buscarReclamacoes amb nome = Inl (Error Sem_resposta)) \<and>
   (axios_get amb (urlBusca nome) = Rejected e \<longrightarrow> response e = Some st \<longrightarrow>
      st \<noteq> 404 \<longrightarrow> st \<noteq> 403 \<longrightarrow>
      buscarReclamacoes amb nome = Inl e) \<and>
   (axios_get amb (urlBusca nome) = Rejected e \<longrightarrow> response e = None \<longrightarrow> \<not> request e \<longrightarrow>
      buscarReclamacoes amb nome = Inl e) \<and>
   (axios_get amb (urlBusca nome) = Resolved [] \<longrightarrow> buscarReclamacoes amb nome = Inr [])"
  by (simp add: buscarReclamacoes_def)

theorem buscarReclamacoes_errors_witness:
  "buscarReclamacoes (ambiente_http (Rejected (erro_status 404))) ''Acme'' =
     Inl (Error Empresa_nao_encontrada) \<and>
   buscarReclamacoes (ambiente_http (Rejected (erro_status 403))) ''Acme'' =
     Inl (Error Acesso_bloqueado) \<and>
   buscarReclamacoes (ambiente_http (Rejected erro_timeout)) ''Acme'' =
     Inl (Error Sem_resposta) \<and>
   buscarReclamacoes (ambiente_http (Rejected (erro_status 500))) ''Acme'' =
     Inl (erro_status 500) \<and>
   buscarReclamacoes (ambiente_http (Rejected (Error ''Invalid URL''))) ''Acme'' =
     Inl (Error ''Invalid URL'') \<and>
   buscarReclamacoes (ambiente_http (Resolved [])) ''Acme'' = Inr []"
  using
    buscarReclamacoes_errors[of "ambiente_http (Rejected (erro_status 404))" "''Acme''"
      "erro_status 404" 404]
    buscarReclamacoes_errors[of "ambiente_http (Rejected (erro_status 403))" "''Acme''"
      "erro_status 403" 403]
    buscarReclamacoes_errors[of "ambiente_http (Rejected erro_timeout)" "''Acme''"
      erro_timeout 0]
    buscarReclamacoes_errors[of "ambiente_http (Rejected (erro_status 500))" "''Acme''"
      "erro_status 500" 500]
    buscarReclamacoes_errors[of "ambiente_http (Rejected (Error ''Invalid URL''))" "''Acme''"
      "Error ''Invalid URL''" 0]
    buscarReclamacoes_errors[of "ambiente_http (Resolved [])" "''Acme''" erro_timeout 0]
  by (simp add: ambiente_http_def erro_status_def erro_timeout_def Error_def)

section \<open>The scheduler\<close>

subsection \<open>Claim C3\<close>

text \<open>
  A token whose lower-case form is neither a key of the table nor a property name of
  \<open>Object.prototype\<close> gets the pattern of \<open>1h\<close>.
\<close>

lemma intervalParaCron_fallback:
  assumes "toLowerCase tok \<notin> set (map fst conversoes)"
    and "toLowerCase tok \<notin> set Object_prototype"
  shows "intervalParaCron tok = Str ''0 * * * *''"
proof -
  have "map_of conversoes (toLowerCase tok) = None"
    using assms(1) by (simp add: map_of_eq_None_iff)
  then have "get_property conversoes (toLowerCase tok) = Undefined"
    using assms(2) by (simp add: get_property_def)
  moreover have "get_property conversoes ''1h'' = Str ''0 * * * *''"
    by (simp add: get_property_def conversoes_def)
  ultimately show ?thesis
    by (simp add: intervalParaCron_def js_or_def)
qed

lemma intervalParaCron_garbage_token:
  "intervalParaCron ''garbage-token'' = intervalParaCron ''1h''"
  by code_simp

lemma intervalParaCron_ignores_case: "intervalParaCron ''SEMANAL'' = Str ''0 9 * * 1''"
  by code_simp

text \<open>
  C3 says that every token outside the vocabulary gets the recurrence rule of \<open>1h\<close>. The
  code does not for the token \<open>constructor\<close>, which is not in the table: the lookup
  \<open>conversoes[...]\<close> finds the member that the table inherits from \<open>Object.prototype\<close>,
  a truthy value, so the fallback \<open>|| conversoes['1h']\<close> is not taken and
  \<open>intervalParaCron\<close> returns that member instead of the pattern of \<open>1h\<close>. Starting the
  monitoring with this token fails in \<open>cron.schedule\<close>; with \<open>1h\<close> it succeeds.
\<close>

theorem intervalParaCron_constructor:
  "intervalParaCron ''constructor'' = Inherited ''constructor'' \<and>
   intervalParaCron ''1h'' = Str ''0 * * * *'' \<and>
   map_of conversoes ''constructor'' = None \<and>
   fst (iniciarMonitoramento amb s nome ''constructor'') = Inl (Error ''pattern must be a string!'') \<and>
   fst (iniciarMonitoramento amb s nome ''1h'') = Inr True"
proof -
  have a: "intervalParaCron ''constructor'' = Inherited ''constructor''" by code_simp
  have b: "intervalParaCron ''1h'' = Str ''0 * * * *''" by code_simp
  have c: "map_of conversoes ''constructor'' = None" by code_simp
  show ?thesis
    by (simp add: a b c iniciarMonitoramento_def cron_schedule_def Let_def)
qed

subsection \<open>Claim C6\<close>

lemma ledger_ativo_upsert:
  "ledger_ativo (upsert_configuracao agora b nome i) nome i"
proof (cases "list_ex (\<lambda>c. cfg_empresa c = nome) (configuracoes b)")
  case True
  let ?f = "\<lambda>c. if cfg_empresa c = nome
                 then c\<lparr>cfg_intervalo := i, cfg_ativo := True, cfg_atualizado_em := agora\<rparr>
                 else c"
  obtain c where c: "c \<in> set (configuracoes b)" "cfg_empresa c = nome"
    using True by (auto simp: list_ex_iff)
  have "?f c \<in> set (map ?f (configuracoes b))"
    using c(1) by (simp only: set_map) (rule imageI)
  moreover have "cfg_empresa (?f c) = nome \<and> cfg_intervalo (?f c) = i \<and> cfg_ativo (?f c)"
    using c(2) by simp
  ultimately have "list_ex (\<lambda>c. cfg_empresa c = nome \<and> cfg_intervalo c = i \<and> cfg_ativo c)
      (map ?f (configuracoes b))"
    unfolding list_ex_iff by blast
  then show ?thesis
    using True by (simp add: ledger_ativo_def upsert_configuracao_def Let_def)
next
  case False
  then show ?thesis
    by (simp add: ledger_ativo_def upsert_configuracao_def Let_def)
qed

lemma salvarConfiguracao_cases:
  "salvarConfiguracao amb b nome i = (Inl erro, b') \<Longrightarrow> b' = b"
  "salvarConfiguracao amb b nome i = (Inr u, b') \<Longrightarrow> ledger_ativo b' nome i"
  by (auto simp: salvarConfiguracao_def ledger_ativo_upsert split: option.splits)

lemma pararMonitoramento_banco:
  "banco_dados (snd (pararMonitoramento s nome)) = banco_dados s"
  by (simp add: pararMonitoramento_def split: option.splits)

lemma iniciarMonitoramento_banco:
  "banco_dados (snd (iniciarMonitoramento amb s nome i)) = banco_dados s"
  by (simp add: iniciarMonitoramento_def Let_def pararMonitoramento_banco
      split: sum.splits prod.splits)

text \<open>
  C6: for a start request with a company and an interval, the route first writes the ledger.
  If that write fails, the response is the status 500 with the message of the storage error
  and the state is unchanged: no job is installed. If it succeeds, the ledger holds the
  active row of the company with the interval, and only then \<open>iniciarMonitoramento\<close> runs,
  from that state, and leaves the ledger as written. So a task is created only with the row
  in the ledger.
\<close>

theorem post_iniciar_ledger_first:
  assumes "nome \<noteq> []" and "intervalo_pedido \<noteq> []"
  shows
    "(\<forall>erro b. salvarConfiguracao amb (banco_dados s) nome intervalo_pedido = (Inl erro, b) \<longrightarrow>
        post_iniciar amb s (Some nome) (Some intervalo_pedido) = (Status500 (message erro), s)) \<and>
     (\<forall>u b. salvarConfiguracao amb (banco_dados s) nome intervalo_pedido = (Inr u, b) \<longrightarrow>
        ledger_ativo b nome intervalo_pedido \<and>
        post_iniciar amb s (Some nome) (Some intervalo_pedido) =
          (case iniciarMonitoramento amb (s\<lparr>banco_dados := b\<rparr>) nome intervalo_pedido of
             (Inl erro, s') \<Rightarrow> (Status500 (message erro), s')
           | (Inr ok, s') \<Rightarrow> (Status200, s')) \<and>
        banco_dados (snd (post_iniciar amb s (Some nome) (Some intervalo_pedido))) = b) \<and>
     (length (tarefas s) < length (tarefas (snd (post_iniciar amb s (Some nome) (Some intervalo_pedido)))) \<longrightarrow>
        ledger_ativo (banco_dados (snd (post_iniciar amb s (Some nome) (Some intervalo_pedido))))
          nome intervalo_pedido)"
proof -
  let ?post = "post_iniciar amb s (Some nome) (Some intervalo_pedido)"
  have fail: "?post = (Status500 (message erro), s)"
    if "salvarConfiguracao amb (banco_dados s) nome intervalo_pedido = (Inl erro, b)" for erro b
  proof -
    have "b = banco_dados s" using that by (rule salvarConfiguracao_cases(1))
    then show ?thesis using that assms by (simp add: post_iniciar_def)
  qed
  have ok: "ledger_ativo b nome intervalo_pedido \<and>
        ?post =
          (case iniciarMonitoramento amb (s\<lparr>banco_dados := b\<rparr>) nome intervalo_pedido of
             (Inl erro, s') \<Rightarrow> (Status500 (message erro), s')
           | (Inr ok, s') \<Rightarrow> (Status200, s')) \<and>
        banco_dados (snd ?post) = b"
    if "salvarConfiguracao amb (banco_dados s) nome intervalo_pedido = (Inr u, b)" for u b
  proof -
    have l: "ledger_ativo b nome intervalo_pedido"
      using that by (rule salvarConfiguracao_cases(2))
    have p: "?post =
          (case iniciarMonitoramento amb (s\<lparr>banco_dados := b\<rparr>) nome intervalo_pedido of
             (Inl erro, s') \<Rightarrow> (Status500 (message erro), s')
           | (Inr ok, s') \<Rightarrow> (Status200, s'))"
      using that assms by (simp add: post_iniciar_def)
    have "snd ?post = snd (iniciarMonitoramento amb (s\<lparr>banco_dados := b\<rparr>) nome intervalo_pedido)"
      unfolding p by (simp split: prod.splits sum.splits)
    then have "banco_dados (snd ?post) = b"
      by (simp add: iniciarMonitoramento_banco)
    with l p show ?thesis by simp
  qed
  have new: "ledger_ativo (banco_dados (snd ?post)) nome intervalo_pedido"
    if grew: "length (tarefas s) < length (tarefas (snd ?post))"
  proof (cases "salvarConfiguracao amb (banco_dados s) nome intervalo_pedido")
    case (Pair r b)
    show ?thesis
    proof (cases r)
      case (Inl erro)
      then have "snd ?post = s" using fail Pair by simp
      then show ?thesis using grew by simp
    next
      case (Inr u)
      then have "salvarConfiguracao amb (banco_dados s) nome intervalo_pedido = (Inr u, b)"
        using Pair by simp
      from ok[OF this] have "ledger_ativo b nome intervalo_pedido" and "banco_dados (snd ?post) = b"
        by blast+
      then show ?thesis by (simp only:)
    qed
  qed
  show ?thesis
    using fail ok new by blast
qed

theorem post_iniciar_ledger_first_witness:
  "post_iniciar ambiente_sem_conexao sistema_monitorando (Some ''Acme'') (Some ''1h'') =
     (Status500 ''connect ECONNREFUSED 127.0.0.1:5432'', sistema_monitorando) \<and>
   fst (post_iniciar ambiente_exemplo sistema_inicial (Some ''Acme'') (Some ''30min'')) = Status200 \<and>
   ledger_ativo (banco_dados (snd (post_iniciar ambiente_exemplo sistema_inicial (Some ''Acme'')
     (Some ''30min'')))) ''Acme'' ''30min'' \<and>
   length (tarefas sistema_inicial) <
     length (tarefas (snd (post_iniciar ambiente_exemplo sistema_inicial (Some ''Acme'')
       (Some ''30min''))))"
proof -
  have n: "''Acme'' \<noteq> []" "''1h'' \<noteq> []" "''30min'' \<noteq> []"
    by simp_all
  have f: "salvarConfiguracao ambiente_sem_conexao (banco_dados sistema_monitorando) ''Acme'' ''1h'' =
      (Inl (Error ''connect ECONNREFUSED 127.0.0.1:5432''), banco_dados sistema_monitorando)"
    by (simp add: salvarConfiguracao_def ambiente_sem_conexao_def)
  have 1: "post_iniciar ambiente_sem_conexao sistema_monitorando (Some ''Acme'') (Some ''1h'') =
     (Status500 ''connect ECONNREFUSED 127.0.0.1:5432'', sistema_monitorando)"
    using post_iniciar_ledger_first[OF n(1) n(2), where amb = ambiente_sem_conexao
        and s = sistema_monitorando] f
    by (simp add: Error_def)
  have g: "length (tarefas sistema_inicial) <
     length (tarefas (snd (post_iniciar ambiente_exemplo sistema_inicial (Some ''Acme'')
       (Some ''30min''))))"
    by code_simp
  have 2: "ledger_ativo (banco_dados (snd (post_iniciar ambiente_exemplo sistema_inicial
      (Some ''Acme'') (Some ''30min'')))) ''Acme'' ''30min''"
    using post_iniciar_ledger_first[OF n(1) n(3), where amb = ambiente_exemplo
        and s = sistema_inicial] g
    by blast
  have 3: "fst (post_iniciar ambiente_exemplo sistema_inicial (Some ''Acme'') (Some ''30min'')) =
      Status200"
    by code_simp
  show ?thesis
    using 1 2 3 g by blast
qed

subsection \<open>Claim C7\<close>

text \<open>
  C7: \<open>pararMonitoramento\<close> leaves the database, and with it every row and field of the
  ledger, as it was. It returns whether the registry had a job for the company; afterwards
  the registry has none, and the task of the job that was there no longer fires. The route
  \<open>POST /api/monitoramento/parar\<close> leaves the database unchanged as well, whatever the body.
\<close>

theorem pararMonitoramento_frame:
  "banco_dados (snd (pararMonitoramento s nome)) = banco_dados s \<and>
   fst (pararMonitoramento s nome) = Map_has (jobsAtivos s) nome \<and>
   \<not> Map_has (jobsAtivos (snd (pararMonitoramento s nome))) nome \<and>
   (\<forall>info. map_of (jobsAtivos s) nome = Some info \<longrightarrow> job info < length (tarefas s) \<longrightarrow>
      \<not> agendada (tarefas (snd (pararMonitoramento s nome)) ! job info)) \<and>
   banco_dados (snd (post_parar s body_empresa)) = banco_dados s"
proof -
  have del: "map_of (Map_delete nome m) nome = None" for m :: "(string \<times> jobInfo) list"
    by (induction m) (auto simp: Map_delete_def)
  show ?thesis
    using pararMonitoramento_banco del
    by (auto simp: pararMonitoramento_def post_parar_def Map_has_def job_stop_def
        split: option.splits)
qed

theorem pararMonitoramento_frame_witness:
  "map_of (jobsAtivos sistema_monitorando) ''Acme'' =
     Some \<lparr>job = 0, intervalo = ''30min'', iniciado = ''2026-01-01T10:00:00.001Z''\<rparr> \<and>
   fst (pararMonitoramento sistema_monitorando ''Acme'') \<and>
   \<not> agendada (tarefas (snd (pararMonitoramento sistema_monitorando ''Acme'')) ! 0) \<and>
   banco_dados (snd (pararMonitoramento sistema_monitorando ''Acme'')) =
     banco_dados sistema_monitorando \<and>
   ledger_ativo (banco_dados (snd (post_parar sistema_monitorando (Some ''Acme'')))) ''Acme'' ''30min''"
proof -
  let ?info = "\<lparr>job = 0, intervalo = ''30min'', iniciado = ''2026-01-01T10:00:00.001Z''\<rparr>"
  have j: "map_of (jobsAtivos sistema_monitorando) ''Acme'' = Some ?info"
    by code_simp
  have l: "job ?info < length (tarefas sistema_monitorando)"
    by code_simp
  have a: "ledger_ativo (banco_dados sistema_monitorando) ''Acme'' ''30min''"
    by code_simp
  note t = pararMonitoramento_frame[of sistema_monitorando "''Acme''" "Some ''Acme''"]
  have h: "Map_has (jobsAtivos sistema_monitorando) ''Acme''"
    using j by (simp add: Map_has_def)
  have "\<not> agendada (tarefas (snd (pararMonitoramento sistema_monitorando ''Acme'')) ! 0)"
    using t j l by auto
  then show ?thesis
    using t j h a by simp
qed

end
